theory Spec2Isabelle
  imports Main "HOL-Library.Sublist"
begin

section \<open>Values, exceptions and the trace of a run\<close>

text \<open>
  The processing engine of \<^verbatim>\<open>lib/cuckoo/core/processor.py\<close> runs pluggable processing
  modules, merges what they return into one dictionary, runs pluggable signatures on that
  dictionary and attaches the matched ones, sorted by severity.

  The data a module returns is an arbitrary Python value; the part of it that matters
  here is whether it is truthy.
\<close>

datatype pyval =
    PyNone
  | PyBool bool
  | PyInt int
  | PyStr string
  | PyList "pyval list"
  | PyDict "(string \<times> pyval) list"

fun truthy :: "pyval \<Rightarrow> bool" where
  "truthy PyNone = False"
| "truthy (PyBool b) = b"
| "truthy (PyInt i) = (i \<noteq> 0)"
| "truthy (PyStr s) = (s \<noteq> [])"
| "truthy (PyList xs) = (xs \<noteq> [])"
| "truthy (PyDict kvs) = (kvs \<noteq> [])"

text \<open>
  The exceptions the code tells apart. \<open>CuckooProcessingError\<close> and \<open>ValueError\<close> derive
  from \<open>Exception\<close>, as does \<open>AttributeError\<close>, which the comparison of two versions
  raises when one of them was built from the empty string; \<open>OtherException\<close> stands for
  every other class below \<open>Exception\<close>;
  \<open>KeyboardInterrupt\<close> stands for the classes outside it (\<open>SystemExit\<close> is another),
  which an \<^verbatim>\<open>except Exception\<close> clause does not catch.
\<close>

datatype exn =
    CuckooProcessingError string
  | ValueError string
  | AttributeError string
  | OtherException string
  | KeyboardInterrupt

fun is_Exception :: "exn \<Rightarrow> bool" where
  "is_Exception KeyboardInterrupt = False"
| "is_Exception _ = True"

text \<open>
  What a run does besides returning: the calls into the plugins and the lines it logs.
  \<open>log.exception\<close> logs at severity ERROR. A message keeps the arguments of its format
  string.
\<close>

datatype level = DEBUG | WARNING | ERROR

datatype message =
    Executed_processing_module string string
  | Processing_module_returned_error string string
  | Failed_to_run_processing_module string
  | Running_signature string
  | Older_incompatible_version string string
  | Wrong_minor_version_number string
  | Newer_incompatible_version string string
  | Wrong_major_version_number string
  | Analysis_matched_signature string string
  | Failed_to_run_signature string

datatype event =
    Module_new string
  | Module_run string
  | Signature_new string
  | Signature_run string
  | Log level message

section \<open>Plugins\<close>

text \<open>
  A processing module class: its \<open>__name__\<close>, its class attributes \<open>order\<close>, \<open>enabled\<close>
  and \<open>key\<close>, and the outcome of each call the runner makes on it: the constructor,
  \<open>set_path\<close>, the loading of its configuration (\<open>Config(current.conf_path)\<close>) and
  \<open>run\<close>, which reads the analysis folder it was given.
\<close>

record processing_module =
  m_name :: string
  m_order :: int
  m_new :: "exn + unit"
  m_set_path :: "string \<Rightarrow> exn + unit"
  m_config :: "exn + unit"
  m_enabled :: bool
  m_key :: string
  m_run :: "string \<Rightarrow> exn + pyval"

text \<open>The record of a matched signature (the dictionary \<open>matched\<close>).\<close>

record match_record =
  mr_name :: string
  mr_description :: string
  mr_severity :: int
  mr_references :: "string list"
  mr_data :: pyval
  mr_alert :: bool

text \<open>
  The results container ("fat dict"): what a processing module stored under its key, or
  the list of matched signatures.
\<close>

datatype docval = Data pyval | Signatures "match_record list"

type_synonym document = "string \<rightharpoonup> docval"

text \<open>
  A signature class. Its constructor and its \<open>run\<close> receive the results; \<open>minimum\<close> and
  \<open>maximum\<close> are \<open>None\<close> or a string.
\<close>

record signature =
  s_new :: "document \<Rightarrow> exn + unit"
  s_name :: string
  s_enabled :: bool
  s_minimum :: "string option"
  s_maximum :: "string option"
  s_description :: string
  s_severity :: int
  s_references :: "string list"
  s_data :: pyval
  s_alert :: bool
  s_run :: "document \<Rightarrow> exn + bool"

text \<open>The plugin registry: \<open>list_plugins(group)\<close> for the two groups.\<close>

record registry =
  list_processing :: "exn + processing_module list"
  list_signatures :: "exn + signature list"

section \<open>Version strings\<close>

text \<open>\<open>s.split(sep)\<close> for a one-character separator; the result is never empty.\<close>

fun split_str :: "char \<Rightarrow> string \<Rightarrow> string list" where
  "split_str sep [] = [[]]"
| "split_str sep (c # cs) =
     (if c = sep then [] # split_str sep cs
      else (case split_str sep cs of
              [] \<Rightarrow> [[c]]
            | w # ws \<Rightarrow> (c # w) # ws))"

definition dash :: char where
  "dash = CHR ''-''"

text \<open>
  \<open>distutils.version.StrictVersion\<close> belongs to Python's standard library. Its
  method \<open>parse\<close> matches the string against
  \<^verbatim>\<open>^(\d+) \. (\d+) (\. (\d+))? ([ab](\d+))?$\<close> and raises \<open>ValueError\<close> when it does
  not match (here: \<open>None\<close>). The version is the triple of numbers (patch \<open>0\<close> when
  absent) and the prerelease tag is the letter with its number, or nothing. \<open>$\<close> also
  matches before one final newline.
\<close>

type_synonym version = "(nat \<times> nat \<times> nat) \<times> (char \<times> nat) option"

definition is_digit :: "char \<Rightarrow> bool" where
  "is_digit c = (c \<in> set ''0123456789'')"

definition atoi :: "string \<Rightarrow> nat" where
  "atoi ds = foldl (\<lambda>n c. 10 * n + (of_char c - 48)) 0 ds"

definition strip_final_newline :: "string \<Rightarrow> string" where
  "strip_final_newline s = (if s \<noteq> [] \<and> last s = CHR 0x0A then butlast s else s)"

definition parse_prerelease :: "string \<Rightarrow> (char \<times> nat) option option" where
  "parse_prerelease s =
     (case s of
        [] \<Rightarrow> Some None
      | c # ds \<Rightarrow>
          if (c = CHR ''a'' \<or> c = CHR ''b'') \<and> ds \<noteq> [] \<and> list_all is_digit ds
          then Some (Some (c, atoi ds)) else None)"

definition parse :: "string \<Rightarrow> version option" where
  "parse vstring =
     (let s = strip_final_newline vstring;
          major = takeWhile is_digit s;
          r1 = dropWhile is_digit s
      in if major = [] then None
         else (case r1 of
                 [] \<Rightarrow> None
               | c # r2 \<Rightarrow>
                   if c \<noteq> CHR ''.'' then None
                   else let minor = takeWhile is_digit r2;
                            r3 = dropWhile is_digit r2
                        in if minor = [] then None
                           else let patch = (case r3 of
                                               [] \<Rightarrow> []
                                             | d # r4 \<Rightarrow> if d = CHR ''.'' then takeWhile is_digit r4 else []);
                                    r5 = (if patch = [] then r3 else dropWhile is_digit (tl r3))
                                in (case parse_prerelease r5 of
                                      None \<Rightarrow> None
                                    | Some pre \<Rightarrow>
                                        Some ((atoi major, atoi minor,
                                               if patch = [] then 0 else atoi patch), pre))))"

text \<open>
  The constructor calls \<open>parse\<close> only when the string is not empty
  (\<^verbatim>\<open>if vstring: self.parse(vstring)\<close>): built from the empty string, the object has no
  attribute \<open>version\<close> (here: \<open>Inr None\<close>).
\<close>

definition StrictVersion :: "string \<Rightarrow> exn + version option" where
  "StrictVersion vstring =
     (if vstring = [] then Inr None
      else (case parse vstring of
              None \<Rightarrow> Inl (ValueError vstring)
            | Some v \<Rightarrow> Inr (Some v)))"

text \<open>
  Python 2's \<open>cmp\<close>, and \<open>StrictVersion.__cmp__\<close>: on two parsed versions first, then
  on two objects, where reading the attribute \<open>version\<close> of an object that has none raises
  \<open>AttributeError\<close>.
\<close>

definition cmp :: "'a::linorder \<Rightarrow> 'a \<Rightarrow> int" where
  "cmp a b = (if a < b then - 1 else if a = b then 0 else 1)"

definition cmp_triple :: "nat \<times> nat \<times> nat \<Rightarrow> nat \<times> nat \<times> nat \<Rightarrow> int" where
  "cmp_triple v w =
     (case (v, w) of
        ((a, b, c), (a', b', c')) \<Rightarrow>
          if cmp a a' \<noteq> 0 then cmp a a'
          else if cmp b b' \<noteq> 0 then cmp b b'
          else cmp c c')"

definition cmp_prerelease :: "char \<times> nat \<Rightarrow> char \<times> nat \<Rightarrow> int" where
  "cmp_prerelease p q =
     (if cmp (of_char (fst p) :: nat) (of_char (fst q)) \<noteq> 0
      then cmp (of_char (fst p) :: nat) (of_char (fst q))
      else cmp (snd p) (snd q))"

definition version_cmp :: "version \<Rightarrow> version \<Rightarrow> int" where
  "version_cmp self other =
     (let compare = cmp_triple (fst self) (fst other)
      in if compare = 0
         then (case (snd self, snd other) of
                 (None, None) \<Rightarrow> 0
               | (Some p, None) \<Rightarrow> - 1
               | (None, Some q) \<Rightarrow> 1
               | (Some p, Some q) \<Rightarrow> cmp_prerelease p q)
         else compare)"

definition StrictVersion_cmp :: "version option \<Rightarrow> version option \<Rightarrow> exn + int" where
  "StrictVersion_cmp self other =
     (case self of
        None \<Rightarrow> Inl (AttributeError ''version'')
      | Some v \<Rightarrow>
          (case other of
             None \<Rightarrow> Inl (AttributeError ''version'')
           | Some w \<Rightarrow> Inr (version_cmp v w)))"

text \<open>
  The two comparisons of the version gates, \<^verbatim>\<open>StrictVersion(a) < StrictVersion(b)\<close>
  and the same with \<open>>\<close>: the left object is built first, then the right one, then
  they are compared.
\<close>

definition version_lt :: "string \<Rightarrow> string \<Rightarrow> exn + bool" where
  "version_lt a b =
     (case StrictVersion a of
        Inl e \<Rightarrow> Inl e
      | Inr self \<Rightarrow>
          (case StrictVersion b of
             Inl e \<Rightarrow> Inl e
           | Inr other \<Rightarrow>
               (case StrictVersion_cmp self other of
                  Inl e \<Rightarrow> Inl e
                | Inr c \<Rightarrow> Inr (c < 0))))"

definition version_gt :: "string \<Rightarrow> string \<Rightarrow> exn + bool" where
  "version_gt a b =
     (case StrictVersion a of
        Inl e \<Rightarrow> Inl e
      | Inr self \<Rightarrow>
          (case StrictVersion b of
             Inl e \<Rightarrow> Inl e
           | Inr other \<Rightarrow>
               (case StrictVersion_cmp self other of
                  Inl e \<Rightarrow> Inl e
                | Inr c \<Rightarrow> Inr (c > 0))))"

section \<open>The processing runner\<close>

text \<open>
  \<open>Processor._run_processing\<close>. The constructor, \<open>set_path\<close> and the loading of the
  configuration stand before the \<open>try\<close>: what they raise leaves the function. Inside
  the \<open>try\<close>, \<open>CuckooProcessingError\<close> is logged as a warning, any other \<open>Exception\<close>
  with \<open>log.exception\<close>, and the function returns \<open>None\<close>; on success it returns the
  dictionary \<open>{current.key : data}\<close>, here the pair.
\<close>

definition run_processing ::
  "string \<Rightarrow> processing_module \<Rightarrow> event list \<times> (exn + (string \<times> pyval) option)" where
  "run_processing analysis_path module =
     (case m_new module of
        Inl e \<Rightarrow> ([Module_new (m_name module)], Inl e)
      | Inr _ \<Rightarrow>
     (case m_set_path module analysis_path of
        Inl e \<Rightarrow> ([Module_new (m_name module)], Inl e)
      | Inr _ \<Rightarrow>
     (case m_config module of
        Inl e \<Rightarrow> ([Module_new (m_name module)], Inl e)
      | Inr _ \<Rightarrow>
     if \<not> m_enabled module then ([Module_new (m_name module)], Inr None)
     else
     (case m_run module analysis_path of
        Inr data \<Rightarrow>
          ([Module_new (m_name module), Module_run (m_name module),
            Log DEBUG (Executed_processing_module (m_name module) analysis_path)],
           Inr (Some (m_key module, data)))
      | Inl (CuckooProcessingError e) \<Rightarrow>
          ([Module_new (m_name module), Module_run (m_name module),
            Log WARNING (Processing_module_returned_error (m_name module) e)],
           Inr None)
      | Inl e \<Rightarrow>
          if is_Exception e
          then ([Module_new (m_name module), Module_run (m_name module),
                 Log ERROR (Failed_to_run_processing_module (m_name module))],
                Inr None)
          else ([Module_new (m_name module), Module_run (m_name module)], Inl e)))))"

section \<open>The signature runner\<close>

text \<open>
  The two version gates of \<open>Processor._run_signature\<close>. A gate lets the function go on
  (\<open>Pass\<close>), returns \<open>None\<close> from it after logging a message at debug severity
  (\<open>Skip\<close>), or is left by an exception that its \<^verbatim>\<open>except ValueError\<close> does not catch
  (\<open>Raise\<close>). A bound that is \<open>None\<close> or the empty string is falsy and its gate is
  not entered.
\<close>

datatype gate = Pass | Skip message | Raise exn

definition minimum_gate :: "string \<Rightarrow> signature \<Rightarrow> gate" where
  "minimum_gate version current =
     (case s_minimum current of
        None \<Rightarrow> Pass
      | Some minimum \<Rightarrow>
          if minimum = [] then Pass
          else (case version_lt version (hd (split_str dash minimum)) of
                  Inr older \<Rightarrow>
                    if older then Skip (Older_incompatible_version (s_name current) minimum)
                    else Pass
                | Inl (ValueError x) \<Rightarrow> Skip (Wrong_minor_version_number (s_name current))
                | Inl e \<Rightarrow> Raise e))"

definition maximum_gate :: "string \<Rightarrow> signature \<Rightarrow> gate" where
  "maximum_gate version current =
     (case s_maximum current of
        None \<Rightarrow> Pass
      | Some maximum \<Rightarrow>
          if maximum = [] then Pass
          else (case version_gt version (hd (split_str dash maximum)) of
                  Inr newer \<Rightarrow>
                    if newer then Skip (Newer_incompatible_version (s_name current) maximum)
                    else Pass
                | Inl (ValueError x) \<Rightarrow> Skip (Wrong_major_version_number (s_name current))
                | Inl e \<Rightarrow> Raise e))"

definition matched :: "signature \<Rightarrow> match_record" where
  "matched current =
     \<lparr>mr_name = s_name current,
      mr_description = s_description current,
      mr_severity = s_severity current,
      mr_references = s_references current,
      mr_data = s_data current,
      mr_alert = s_alert current\<rparr>"

text \<open>
  \<open>Processor._run_signature\<close>, with the running version \<open>CUCKOO_VERSION\<close> as a
  parameter. The constructor stands before the \<open>try\<close>; \<open>run\<close> is inside one that
  catches \<open>Exception\<close>; what leaves a version gate leaves the function.
\<close>

definition run_signature ::
  "string \<Rightarrow> string \<Rightarrow> signature \<Rightarrow> document \<Rightarrow> event list \<times> (exn + match_record option)" where
  "run_signature analysis_path CUCKOO_VERSION current results =
     (case s_new current results of
        Inl e \<Rightarrow> ([Signature_new (s_name current)], Inl e)
      | Inr _ \<Rightarrow>
     (let t = [Signature_new (s_name current), Log DEBUG (Running_signature (s_name current))]
      in
     if \<not> s_enabled current then (t, Inr None)
     else
     (let version = hd (split_str dash CUCKOO_VERSION) in
     (case minimum_gate version current of
        Raise e \<Rightarrow> (t, Inl e)
      | Skip msg \<Rightarrow> (t @ [Log DEBUG msg], Inr None)
      | Pass \<Rightarrow>
     (case maximum_gate version current of
        Raise e \<Rightarrow> (t, Inl e)
      | Skip msg \<Rightarrow> (t @ [Log DEBUG msg], Inr None)
      | Pass \<Rightarrow>
     (case s_run current results of
        Inr hit \<Rightarrow>
          if hit
          then (t @ [Signature_run (s_name current),
                     Log DEBUG (Analysis_matched_signature analysis_path (s_name current))],
                Inr (Some (matched current)))
          else (t @ [Signature_run (s_name current)], Inr None)
      | Inl e \<Rightarrow>
          if is_Exception e
          then (t @ [Signature_run (s_name current),
                     Log ERROR (Failed_to_run_signature (s_name current))],
                Inr None)
          else (t @ [Signature_run (s_name current)], Inl e)))))))"

section \<open>The orchestrator\<close>

text \<open>
  The two loops of \<open>Processor.run\<close>. A fragment is merged with \<open>results.update\<close>; a
  matched signature is appended to \<open>sigs\<close>. An exception that leaves a runner leaves
  the loop.
\<close>

fun run_modules ::
  "string \<Rightarrow> processing_module list \<Rightarrow> document \<Rightarrow> event list \<times> (exn + document)" where
  "run_modules analysis_path [] results = ([], Inr results)"
| "run_modules analysis_path (module # modules_list) results =
     (case run_processing analysis_path module of
        (t, Inl e) \<Rightarrow> (t, Inl e)
      | (t, Inr result) \<Rightarrow>
          (case run_modules analysis_path modules_list
                  (case result of
                     None \<Rightarrow> results
                   | Some (key, data) \<Rightarrow> results(key \<mapsto> Data data)) of
             (t', r) \<Rightarrow> (t @ t', r)))"

fun run_signatures ::
  "string \<Rightarrow> string \<Rightarrow> signature list \<Rightarrow> document \<Rightarrow> match_record list
     \<Rightarrow> event list \<times> (exn + match_record list)" where
  "run_signatures analysis_path CUCKOO_VERSION [] results sigs = ([], Inr sigs)"
| "run_signatures analysis_path CUCKOO_VERSION (signature # rest) results sigs =
     (case run_signature analysis_path CUCKOO_VERSION signature results of
        (t, Inl e) \<Rightarrow> (t, Inl e)
      | (t, Inr match) \<Rightarrow>
          (case run_signatures analysis_path CUCKOO_VERSION rest results
                  (case match of
                     None \<Rightarrow> sigs
                   | Some m \<Rightarrow> sigs @ [m]) of
             (t', r) \<Rightarrow> (t @ t', r)))"

text \<open>
  \<open>Processor.run\<close>. \<open>list.sort\<close> is stable, as \<open>sort_key\<close> is. The result is the
  trace of the run with the exception that left it or the finished results.
\<close>

definition run :: "string \<Rightarrow> string \<Rightarrow> registry \<Rightarrow> event list \<times> (exn + document)" where
  "run analysis_path CUCKOO_VERSION plugins =
     (case list_processing plugins of
        Inl e \<Rightarrow> ([], Inl e)
      | Inr modules \<Rightarrow>
     (let modules_list = sort_key m_order modules in
     (case run_modules analysis_path modules_list Map.empty of
        (t1, Inl e) \<Rightarrow> (t1, Inl e)
      | (t1, Inr results) \<Rightarrow>
     (case list_signatures plugins of
        Inl e \<Rightarrow> (t1, Inl e)
      | Inr signatures \<Rightarrow>
     (case run_signatures analysis_path CUCKOO_VERSION signatures results [] of
        (t2, Inl e) \<Rightarrow> (t1 @ t2, Inl e)
      | (t2, Inr sigs) \<Rightarrow>
          (t1 @ t2,
           Inr (results(''signatures'' \<mapsto> Signatures (sort_key mr_severity sigs)))))))))"

section \<open>Notions used in the statements\<close>

text \<open>Discarding the suffix after the first \<open>-\<close>, said directly.\<close>

definition discard_suffix :: "string \<Rightarrow> string" where
  "discard_suffix s = takeWhile (\<lambda>c. c \<noteq> dash) s"

text \<open>The plugins a run instantiated, in the order of the trace.\<close>

fun invoked_module :: "event \<Rightarrow> string option" where
  "invoked_module (Module_new n) = Some n"
| "invoked_module _ = None"

fun invoked_signature :: "event \<Rightarrow> string option" where
  "invoked_signature (Signature_new n) = Some n"
| "invoked_signature _ = None"

definition modules_invoked :: "event list \<Rightarrow> string list" where
  "modules_invoked t = List.map_filter invoked_module t"

definition signatures_invoked :: "event list \<Rightarrow> string list" where
  "signatures_invoked t = List.map_filter invoked_signature t"

text \<open>
  An enabled, successful processing module: it is instantiated, bound to the path and
  configured without a failure, it is enabled and its \<open>run\<close> returns \<open>data\<close>.
\<close>

definition produces :: "string \<Rightarrow> processing_module \<Rightarrow> pyval \<Rightarrow> bool" where
  "produces analysis_path module data \<longleftrightarrow>
     m_new module = Inr () \<and> m_set_path module analysis_path = Inr () \<and>
     m_config module = Inr () \<and> m_enabled module \<and> m_run module analysis_path = Inr data"

text \<open>
  A signature that passes the enabled gate and both version gates, and one that besides
  has a \<open>run\<close> returning a true value on the results.
\<close>

definition passes_gates :: "string \<Rightarrow> signature \<Rightarrow> bool" where
  "passes_gates CUCKOO_VERSION current \<longleftrightarrow>
     s_enabled current \<and>
     minimum_gate (hd (split_str dash CUCKOO_VERSION)) current = Pass \<and>
     maximum_gate (hd (split_str dash CUCKOO_VERSION)) current = Pass"

definition fires :: "string \<Rightarrow> document \<Rightarrow> signature \<Rightarrow> bool" where
  "fires CUCKOO_VERSION results current \<longleftrightarrow>
     passes_gates CUCKOO_VERSION current \<and> s_run current results = Inr True"

text \<open>The value under a key of the results a run returned.\<close>

definition result_at :: "event list \<times> (exn + document) \<Rightarrow> string \<Rightarrow> exn + docval option" where
  "result_at r key = map_sum id (\<lambda>results. results key) (snd r)"

text \<open>
  What a processing module adds to the results: the value its \<open>run\<close> returns, under its
  key, when it is enabled; nothing when it is disabled or its \<open>run\<close> fails. The
  fragments of a sequence of modules, merged in order.
\<close>

definition contribution :: "string \<Rightarrow> processing_module \<Rightarrow> document \<Rightarrow> document" where
  "contribution analysis_path module results =
     (if m_enabled module
      then (case m_run module analysis_path of
              Inr data \<Rightarrow> results(m_key module \<mapsto> Data data)
            | Inl e \<Rightarrow> results)
      else results)"

definition merged :: "string \<Rightarrow> processing_module list \<Rightarrow> document" where
  "merged analysis_path modules_list =
     foldl (\<lambda>results module. contribution analysis_path module results) Map.empty modules_list"

text \<open>
  The failure of a unit that is not kept inside it. For a processing module: what its
  constructor, \<open>set_path\<close> or the loading of its configuration raises, and what the
  \<open>run\<close> of an enabled module raises outside the \<open>Exception\<close> hierarchy. For a
  signature: what its constructor raises, what leaves a version gate of an enabled
  signature, and what the \<open>run\<close> of a signature that passed the gates raises outside
  the \<open>Exception\<close> hierarchy.
\<close>

definition module_fault :: "string \<Rightarrow> processing_module \<Rightarrow> exn option" where
  "module_fault analysis_path module =
     (case m_new module of
        Inl e \<Rightarrow> Some e
      | Inr _ \<Rightarrow>
     (case m_set_path module analysis_path of
        Inl e \<Rightarrow> Some e
      | Inr _ \<Rightarrow>
     (case m_config module of
        Inl e \<Rightarrow> Some e
      | Inr _ \<Rightarrow>
     if m_enabled module
     then (case m_run module analysis_path of
             Inl e \<Rightarrow> if is_Exception e then None else Some e
           | Inr _ \<Rightarrow> None)
     else None)))"

definition signature_fault :: "string \<Rightarrow> document \<Rightarrow> signature \<Rightarrow> exn option" where
  "signature_fault CUCKOO_VERSION results current =
     (case s_new current results of
        Inl e \<Rightarrow> Some e
      | Inr _ \<Rightarrow>
     if s_enabled current
     then (case minimum_gate (hd (split_str dash CUCKOO_VERSION)) current of
             Raise e \<Rightarrow> Some e
           | Skip msg \<Rightarrow> None
           | Pass \<Rightarrow>
          (case maximum_gate (hd (split_str dash CUCKOO_VERSION)) current of
             Raise e \<Rightarrow> Some e
           | Skip msg \<Rightarrow> None
           | Pass \<Rightarrow>
          (case s_run current results of
             Inl e \<Rightarrow> if is_Exception e then None else Some e
           | Inr _ \<Rightarrow> None)))
     else None)"

text \<open>
  The decision of a version gate from the outcome of its comparison: the exception
  \<open>ValueError\<close> is caught and logged with the message \<open>wrong\<close>, another exception
  leaves the gate, a true comparison is logged with the message \<open>incompatible\<close>.
\<close>

definition decide :: "message \<Rightarrow> message \<Rightarrow> exn + bool \<Rightarrow> gate" where
  "decide wrong incompatible outcome =
     (case outcome of
        Inr b \<Rightarrow> if b then Skip incompatible else Pass
      | Inl (ValueError x) \<Rightarrow> Skip wrong
      | Inl e \<Rightarrow> Raise e)"

section \<open>Example plugins\<close>

text \<open>
  A processing module that is enabled, whose constructor, \<open>set_path\<close> and configuration
  succeed and whose \<open>run\<close> has the given outcome; a signature that is enabled, whose
  constructor succeeds and whose \<open>run\<close> has the given outcome.
\<close>

definition module_class :: "string \<Rightarrow> int \<Rightarrow> string \<Rightarrow> exn + pyval \<Rightarrow> processing_module" where
  "module_class name order key outcome =
     \<lparr>m_name = name, m_order = order, m_new = Inr (), m_set_path = (\<lambda>path. Inr ()),
      m_config = Inr (), m_enabled = True, m_key = key, m_run = (\<lambda>path. outcome)\<rparr>"

definition signature_class ::
  "string \<Rightarrow> int \<Rightarrow> string option \<Rightarrow> string option \<Rightarrow> exn + bool \<Rightarrow> signature" where
  "signature_class name severity minimum maximum outcome =
     \<lparr>s_new = (\<lambda>results. Inr ()), s_name = name, s_enabled = True,
      s_minimum = minimum, s_maximum = maximum, s_description = [],
      s_severity = severity, s_references = [], s_data = PyNone, s_alert = False,
      s_run = (\<lambda>results. outcome)\<rparr>"

definition plugins_of :: "processing_module list \<Rightarrow> signature list \<Rightarrow> registry" where
  "plugins_of modules signatures =
     \<lparr>list_processing = Inr modules, list_signatures = Inr signatures\<rparr>"

text \<open>
  A registry for the examples: module \<open>C\<close> fails in its \<open>run\<close>; signature \<open>S4\<close> is
  disabled, \<open>S5\<close> asks for a newer version, \<open>S6\<close> fails in its \<open>run\<close> and \<open>S7\<close> does
  not match.
\<close>

definition demo_modules :: "processing_module list" where
  "demo_modules =
     [module_class ''A'' 2 ''a'' (Inr (PyInt 1)),
      module_class ''B'' 1 ''b'' (Inr (PyInt 2)),
      module_class ''C'' 3 ''c'' (Inl (OtherException ''broken''))]"

definition demo_signatures :: "signature list" where
  "demo_signatures =
     [signature_class ''S1'' 5 None None (Inr True),
      signature_class ''S2'' 1 None None (Inr True),
      signature_class ''S3'' 5 (Some ''1.0'') (Some ''3.0'') (Inr True),
      (signature_class ''S4'' 0 None None (Inr True))\<lparr>s_enabled := False\<rparr>,
      signature_class ''S5'' 0 (Some ''9.0'') None (Inr True),
      signature_class ''S6'' 0 None None (Inl (OtherException ''broken'')),
      signature_class ''S7'' 0 None None (Inr False)]"

section \<open>Version strings: basic facts\<close>

lemma split_str_not_Nil: "split_str sep s \<noteq> []"
  by (induction s) (auto split: list.splits)

lemma hd_split_str: "hd (split_str sep s) = takeWhile (\<lambda>c. c \<noteq> sep) s"
  by (induction s) (auto simp: split_str_not_Nil split: list.splits)

lemma hd_split_str_dash: "hd (split_str dash s) = discard_suffix s"
  by (simp add: hd_split_str discard_suffix_def)

lemma parse_2_0: "parse ''2.0'' = Some ((2, 0, 0), None)"
  by (simp add: parse_def strip_final_newline_def is_digit_def atoi_def
      parse_prerelease_def)

lemma StrictVersion_2_0: "StrictVersion ''2.0'' = Inr (Some ((2, 0, 0), None))"
  by (simp add: StrictVersion_def parse_2_0)

lemma StrictVersion_Inl: "StrictVersion a = Inl e \<Longrightarrow> e = ValueError a"
  by (auto simp: StrictVersion_def split: if_splits option.splits)

lemma StrictVersion_unparsed: "a \<noteq> [] \<Longrightarrow> parse a = None \<Longrightarrow> StrictVersion a = Inl (ValueError a)"
  by (simp add: StrictVersion_def)

lemmas version_defs = version_lt_def version_gt_def StrictVersion_cmp_def StrictVersion_def
  version_cmp_def cmp_triple_def cmp_def cmp_prerelease_def dash_def parse_def
  strip_final_newline_def is_digit_def atoi_def parse_prerelease_def

lemmas example_defs = module_class_def signature_class_def

lemmas demo_defs = demo_modules_def demo_signatures_def plugins_of_def example_defs

lemmas run_defs = run_def run_processing_def run_signature_def minimum_gate_def
  maximum_gate_def

section \<open>The signature runner, case by case\<close>

lemma run_signature_new_fails:
  "s_new current results = Inl e \<Longrightarrow>
   run_signature p V current results = ([Signature_new (s_name current)], Inl e)"
  by (simp add: run_signature_def)

lemma run_signature_disabled:
  "s_new current results = Inr () \<Longrightarrow> \<not> s_enabled current \<Longrightarrow>
   run_signature p V current results =
     ([Signature_new (s_name current), Log DEBUG (Running_signature (s_name current))],
      Inr None)"
  by (simp add: run_signature_def)

lemma run_signature_minimum_skips:
  "s_new current results = Inr () \<Longrightarrow> s_enabled current \<Longrightarrow>
   minimum_gate (hd (split_str dash V)) current = Skip msg \<Longrightarrow>
   run_signature p V current results =
     ([Signature_new (s_name current), Log DEBUG (Running_signature (s_name current)),
       Log DEBUG msg], Inr None)"
  by (simp add: run_signature_def)

lemma run_signature_minimum_raises:
  "s_new current results = Inr () \<Longrightarrow> s_enabled current \<Longrightarrow>
   minimum_gate (hd (split_str dash V)) current = Raise e \<Longrightarrow>
   run_signature p V current results =
     ([Signature_new (s_name current), Log DEBUG (Running_signature (s_name current))],
      Inl e)"
  by (simp add: run_signature_def)

lemma run_signature_maximum_skips:
  "s_new current results = Inr () \<Longrightarrow> s_enabled current \<Longrightarrow>
   minimum_gate (hd (split_str dash V)) current = Pass \<Longrightarrow>
   maximum_gate (hd (split_str dash V)) current = Skip msg \<Longrightarrow>
   run_signature p V current results =
     ([Signature_new (s_name current), Log DEBUG (Running_signature (s_name current)),
       Log DEBUG msg], Inr None)"
  by (simp add: run_signature_def)

lemma run_signature_maximum_raises:
  "s_new current results = Inr () \<Longrightarrow> s_enabled current \<Longrightarrow>
   minimum_gate (hd (split_str dash V)) current = Pass \<Longrightarrow>
   maximum_gate (hd (split_str dash V)) current = Raise e \<Longrightarrow>
   run_signature p V current results =
     ([Signature_new (s_name current), Log DEBUG (Running_signature (s_name current))],
      Inl e)"
  by (simp add: run_signature_def)

lemma run_signature_evaluates:
  "s_new current results = Inr () \<Longrightarrow> s_enabled current \<Longrightarrow>
   minimum_gate (hd (split_str dash V)) current = Pass \<Longrightarrow>
   maximum_gate (hd (split_str dash V)) current = Pass \<Longrightarrow>
   run_signature p V current results =
     (case s_run current results of
        Inr hit \<Rightarrow>
          if hit
          then ([Signature_new (s_name current), Log DEBUG (Running_signature (s_name current)),
                 Signature_run (s_name current),
                 Log DEBUG (Analysis_matched_signature p (s_name current))],
                Inr (Some (matched current)))
          else ([Signature_new (s_name current), Log DEBUG (Running_signature (s_name current)),
                 Signature_run (s_name current)], Inr None)
      | Inl e \<Rightarrow>
          if is_Exception e
          then ([Signature_new (s_name current), Log DEBUG (Running_signature (s_name current)),
                 Signature_run (s_name current),
                 Log ERROR (Failed_to_run_signature (s_name current))], Inr None)
          else ([Signature_new (s_name current), Log DEBUG (Running_signature (s_name current)),
                 Signature_run (s_name current)], Inl e))"
  by (simp add: run_signature_def split: sum.splits)

lemmas run_signature_cases = run_signature_new_fails run_signature_disabled
  run_signature_minimum_skips run_signature_minimum_raises run_signature_maximum_skips
  run_signature_maximum_raises run_signature_evaluates

section \<open>The minimum-version gate at \<open>2.0\<close>\<close>

text \<open>
  Claim C2. Take a signature whose declared minimum is the string \<open>2.0\<close>, and a running
  version that parses once the suffix after \<open>-\<close> is gone. When it is strictly lower
  than \<open>2.0\<close>, the signature runner returns \<open>None\<close> and the trace holds no call of the
  signature's \<open>run\<close>. When it is at least \<open>2.0\<close>, the minimum gate lets the signature
  through and the runner does what it does for the same signature with no minimum.
\<close>

theorem minimum_2_0_gate:
  assumes "s_minimum current = Some ''2.0''"
    and "StrictVersion (hd (split_str dash CUCKOO_VERSION)) = Inr (Some running)"
  shows "(version_cmp running ((2, 0, 0), None) < 0 \<longrightarrow> s_new current results = Inr () \<longrightarrow>
            snd (run_signature analysis_path CUCKOO_VERSION current results) = Inr None \<and>
            Signature_run (s_name current)
              \<notin> set (fst (run_signature analysis_path CUCKOO_VERSION current results))) \<and>
         (\<not> version_cmp running ((2, 0, 0), None) < 0 \<longrightarrow>
            minimum_gate (hd (split_str dash CUCKOO_VERSION)) current = Pass \<and>
            run_signature analysis_path CUCKOO_VERSION current results =
              run_signature analysis_path CUCKOO_VERSION (current\<lparr>s_minimum := None\<rparr>) results)"
proof -
  let ?v = "hd (split_str dash CUCKOO_VERSION)"
  have "hd (split_str dash ''2.0'') = ''2.0''"
    by (simp add: dash_def)
  then have lt: "version_lt ?v (hd (split_str dash ''2.0''))
              = Inr (version_cmp running ((2, 0, 0), None) < 0)"
    using assms(2) StrictVersion_2_0 by (simp add: version_lt_def StrictVersion_cmp_def)
  have gate: "minimum_gate ?v current =
      (if version_cmp running ((2, 0, 0), None) < 0
       then Skip (Older_incompatible_version (s_name current) ''2.0'') else Pass)"
    using assms(1) lt by (simp add: minimum_gate_def)
  have none: "minimum_gate ?v (current\<lparr>s_minimum := None\<rparr>) = Pass"
    by (simp add: minimum_gate_def)
  have mx: "maximum_gate ?v (current\<lparr>s_minimum := None\<rparr>) = maximum_gate ?v current"
    by (simp add: maximum_gate_def split: option.splits sum.splits exn.splits)
  have lower: "snd (run_signature analysis_path CUCKOO_VERSION current results) = Inr None \<and>
            Signature_run (s_name current)
              \<notin> set (fst (run_signature analysis_path CUCKOO_VERSION current results))"
    if "version_cmp running ((2, 0, 0), None) < 0" "s_new current results = Inr ()"
  proof (cases "s_enabled current")
    case True
    from that gate have "minimum_gate ?v current
        = Skip (Older_incompatible_version (s_name current) ''2.0'')" by simp
    from run_signature_minimum_skips [OF that(2) True this] show ?thesis by simp
  next
    case False
    from run_signature_disabled [OF that(2) False] show ?thesis by simp
  qed
  have same: "run_signature analysis_path CUCKOO_VERSION current results =
              run_signature analysis_path CUCKOO_VERSION (current\<lparr>s_minimum := None\<rparr>) results"
    if "\<not> version_cmp running ((2, 0, 0), None) < 0"
  proof -
    from that gate have "minimum_gate ?v current = Pass" by simp
    with none mx show ?thesis
      by (auto simp: run_signature_def matched_def Let_def split: sum.splits gate.splits)
  qed
  show ?thesis
    using lower same gate by simp
qed

theorem minimum_2_0_gate_witness:
  "snd (run_signature ''/analyses/1'' ''1.5''
          (signature_class ''demo'' 2 (Some ''2.0'') None (Inr True)) Map.empty) = Inr None \<and>
   Signature_run ''demo''
     \<notin> set (fst (run_signature ''/analyses/1'' ''1.5''
                   (signature_class ''demo'' 2 (Some ''2.0'') None (Inr True)) Map.empty)) \<and>
   snd (run_signature ''/analyses/1'' ''2.1''
          (signature_class ''demo'' 2 (Some ''2.0'') None (Inr True)) Map.empty)
     = Inr (Some (matched (signature_class ''demo'' 2 (Some ''2.0'') None (Inr True))))"
proof -
  let ?s = "signature_class ''demo'' 2 (Some ''2.0'') None (Inr True)"
  have m: "s_minimum ?s = Some ''2.0''"
    by (simp add: example_defs)
  have n: "s_new ?s Map.empty = Inr ()" "s_name ?s = ''demo''"
    by (simp_all add: example_defs)
  have v1: "StrictVersion (hd (split_str dash ''1.5'')) = Inr (Some ((1, 5, 0), None))"
    by (simp add: version_defs)
  have v2: "StrictVersion (hd (split_str dash ''2.1'')) = Inr (Some ((2, 1, 0), None))"
    by (simp add: version_defs)
  have c1: "version_cmp ((1, 5, 0), None) ((2, 0, 0), None) < 0"
    by (simp add: version_defs)
  have c2: "\<not> version_cmp ((2, 1, 0), None) ((2, 0, 0), None) < 0"
    by (simp add: version_defs)
  have r: "snd (run_signature ''/analyses/1'' ''2.1'' (?s\<lparr>s_minimum := None\<rparr>) Map.empty)
             = Inr (Some (matched ?s))"
    by (simp add: run_signature_def example_defs minimum_gate_def maximum_gate_def matched_def)
  show ?thesis
    using minimum_2_0_gate
        [OF m v1, where analysis_path = "''/analyses/1''" and results = Map.empty]
      minimum_2_0_gate
        [OF m v2, where analysis_path = "''/analyses/1''" and results = Map.empty]
      n c1 c2 r
    by simp
qed

section \<open>Bounds that do not parse, and bounds with a suffix\<close>

lemma version_lt_unparsed_bound:
  assumes "b \<noteq> []" and "parse b = None"
  shows "\<exists>x. version_lt a b = Inl (ValueError x)"
proof (cases "StrictVersion a")
  case (Inl e)
  with StrictVersion_Inl [OF Inl] show ?thesis
    by (simp add: version_lt_def)
next
  case (Inr self)
  with StrictVersion_unparsed [OF assms] show ?thesis
    by (simp add: version_lt_def)
qed

lemma discard_suffix_append:
  "discard_suffix (bound @ dash # rest) = discard_suffix bound"
  by (induction bound) (simp_all add: discard_suffix_def)

text \<open>
  Claim C7, as the code has it. The string the code parses is the declared minimum
  without the suffix after \<open>-\<close>. For an enabled signature whose declared minimum has a
  non-empty part before the first \<open>-\<close> that does not parse as a strict version, the
  signature runner returns \<open>None\<close> whatever the running version is and whatever the
  match logic would return: the trace holds the debug line about the wrong version
  number and no call of \<open>run\<close>, and nothing is raised.
\<close>

theorem unparseable_minimum_skipped:
  assumes "s_new current results = Inr ()"
    and "s_enabled current"
    and "s_minimum current = Some minimum"
    and "discard_suffix minimum \<noteq> []"
    and "parse (discard_suffix minimum) = None"
  shows "run_signature analysis_path CUCKOO_VERSION current results =
           ([Signature_new (s_name current),
             Log DEBUG (Running_signature (s_name current)),
             Log DEBUG (Wrong_minor_version_number (s_name current))], Inr None)"
proof -
  let ?v = "hd (split_str dash CUCKOO_VERSION)"
  from assms(4) have ne: "minimum \<noteq> []"
    by (auto simp: discard_suffix_def)
  from version_lt_unparsed_bound [OF assms(4,5)]
  obtain x where "version_lt ?v (discard_suffix minimum) = Inl (ValueError x)"
    by blast
  then have "minimum_gate ?v current = Skip (Wrong_minor_version_number (s_name current))"
    using assms(3) ne by (simp add: minimum_gate_def hd_split_str_dash)
  with assms(1,2) show ?thesis
    by (rule run_signature_minimum_skips)
qed

theorem unparseable_minimum_skipped_witness:
  "run_signature ''/analyses/1'' ''2.1''
     (signature_class ''demo'' 2 (Some ''abc'') None (Inr True)) Map.empty =
     ([Signature_new ''demo'', Log DEBUG (Running_signature ''demo''),
       Log DEBUG (Wrong_minor_version_number ''demo'')], Inr None)"
proof -
  let ?s = "signature_class ''demo'' 2 (Some ''abc'') None (Inr True)"
  have "s_new ?s Map.empty = Inr ()" "s_enabled ?s" "s_minimum ?s = Some ''abc''"
    by (simp_all add: example_defs)
  moreover have "discard_suffix ''abc'' \<noteq> []" "parse (discard_suffix ''abc'') = None"
    by (simp_all add: discard_suffix_def version_defs)
  ultimately show ?thesis
    using unparseable_minimum_skipped [of ?s Map.empty "''abc''" "''/analyses/1''" "''2.1''"]
    by (simp add: example_defs)
qed

text \<open>
  The claim as it is written fails: \<open>2.0-beta\<close> does not parse as a strict version, and
  an enabled signature that declares it as its minimum is evaluated and matched under the
  running version \<open>2.1\<close>. Nor is every such minimum skipped without a failure: \<open>-beta\<close>
  does not parse either, and for it the comparison raises \<open>AttributeError\<close>, which
  leaves the signature runner.
\<close>

theorem unparseable_minimum_counterexample:
  "parse ''2.0-beta'' = None \<and>
   s_enabled (signature_class ''demo'' 2 (Some ''2.0-beta'') None (Inr True)) \<and>
   s_minimum (signature_class ''demo'' 2 (Some ''2.0-beta'') None (Inr True))
     = Some ''2.0-beta'' \<and>
   snd (run_signature ''/analyses/1'' ''2.1''
          (signature_class ''demo'' 2 (Some ''2.0-beta'') None (Inr True)) Map.empty)
     = Inr (Some (matched (signature_class ''demo'' 2 (Some ''2.0-beta'') None (Inr True)))) \<and>
   parse ''-beta'' = None \<and>
   snd (run_signature ''/analyses/1'' ''2.1''
          (signature_class ''demo'' 2 (Some ''-beta'') None (Inr True)) Map.empty)
     = Inl (AttributeError ''version'')"
  by (simp add: run_signature_def minimum_gate_def maximum_gate_def example_defs version_defs)

text \<open>
  Claim C9. Each version gate cuts the declared bound at its first \<open>-\<close> and then builds
  the version from what is left and compares the running version with it: the decision
  of the minimum gate is that of \<open>StrictVersion(version) < StrictVersion(b)\<close>, and the
  decision of the maximum gate that of \<open>StrictVersion(version) > StrictVersion(b)\<close>,
  where \<open>b\<close> is the declared bound without the suffix after \<open>-\<close>. So \<open>2.0-beta\<close> is
  compared as \<open>2.0\<close>.
\<close>

theorem bounds_normalized:
  "minimum_gate version current =
     (case s_minimum current of
        None \<Rightarrow> Pass
      | Some minimum \<Rightarrow>
          if minimum = [] then Pass
          else decide (Wrong_minor_version_number (s_name current))
                 (Older_incompatible_version (s_name current) minimum)
                 (version_lt version (discard_suffix minimum))) \<and>
   maximum_gate version current =
     (case s_maximum current of
        None \<Rightarrow> Pass
      | Some maximum \<Rightarrow>
          if maximum = [] then Pass
          else decide (Wrong_major_version_number (s_name current))
                 (Newer_incompatible_version (s_name current) maximum)
                 (version_gt version (discard_suffix maximum))) \<and>
   discard_suffix (bound @ dash # rest) = discard_suffix bound"
proof -
  have "minimum_gate version current =
     (case s_minimum current of
        None \<Rightarrow> Pass
      | Some minimum \<Rightarrow>
          if minimum = [] then Pass
          else decide (Wrong_minor_version_number (s_name current))
                 (Older_incompatible_version (s_name current) minimum)
                 (version_lt version (discard_suffix minimum)))"
    by (simp add: minimum_gate_def decide_def hd_split_str_dash
        split: option.splits sum.splits exn.splits)
  moreover have "maximum_gate version current =
     (case s_maximum current of
        None \<Rightarrow> Pass
      | Some maximum \<Rightarrow>
          if maximum = [] then Pass
          else decide (Wrong_major_version_number (s_name current))
                 (Newer_incompatible_version (s_name current) maximum)
                 (version_gt version (discard_suffix maximum)))"
    by (simp add: maximum_gate_def decide_def hd_split_str_dash
        split: option.splits sum.splits exn.splits)
  moreover have "discard_suffix (bound @ dash # rest) = discard_suffix bound"
    by (rule discard_suffix_append)
  ultimately show ?thesis by simp
qed

theorem bounds_normalized_witness:
  "discard_suffix ''2.0-beta'' = ''2.0'' \<and>
   minimum_gate ''2.1''
     (signature_class ''demo'' 2 (Some ''2.0-beta'') (Some ''3.0-rc1'') (Inr True)) = Pass \<and>
   minimum_gate ''1.5''
     (signature_class ''demo'' 2 (Some ''2.0-beta'') (Some ''3.0-rc1'') (Inr True))
     = Skip (Older_incompatible_version ''demo'' ''2.0-beta'') \<and>
   maximum_gate ''2.1''
     (signature_class ''demo'' 2 (Some ''2.0-beta'') (Some ''3.0-rc1'') (Inr True)) = Pass \<and>
   maximum_gate ''2.1''
     (signature_class ''demo'' 2 None (Some ''2.0-beta'') (Inr True))
     = Skip (Newer_incompatible_version ''demo'' ''2.0-beta'') \<and>
   snd (run_signature ''/analyses/1'' ''2.1''
          (signature_class ''demo'' 2 (Some ''2.0-beta'') (Some ''3.0-rc1'') (Inr True))
          Map.empty)
     = Inr (Some (matched
         (signature_class ''demo'' 2 (Some ''2.0-beta'') (Some ''3.0-rc1'') (Inr True))))"
proof -
  let ?s = "signature_class ''demo'' 2 (Some ''2.0-beta'') (Some ''3.0-rc1'') (Inr True)"
  let ?t = "signature_class ''demo'' 2 None (Some ''2.0-beta'') (Inr True)"
  have d: "discard_suffix ''2.0-beta'' = ''2.0''" "discard_suffix ''3.0-rc1'' = ''3.0''"
    by (simp_all add: discard_suffix_def dash_def)
  have c: "version_lt ''2.1'' ''2.0'' = Inr False" "version_lt ''1.5'' ''2.0'' = Inr True"
    "version_gt ''2.1'' ''3.0'' = Inr False" "version_gt ''2.1'' ''2.0'' = Inr True"
    by (simp_all add: version_defs)
  have f: "s_minimum ?s = Some ''2.0-beta''" "s_maximum ?s = Some ''3.0-rc1''"
    "s_maximum ?t = Some ''2.0-beta''" "s_name ?s = ''demo''" "s_name ?t = ''demo''"
    "s_new ?s Map.empty = Inr ()" "s_enabled ?s" "s_run ?s Map.empty = Inr True"
    by (simp_all add: example_defs)
  have g1: "minimum_gate ''2.1'' ?s = Pass"
    and g2: "minimum_gate ''1.5'' ?s = Skip (Older_incompatible_version ''demo'' ''2.0-beta'')"
    and g3: "maximum_gate ''2.1'' ?s = Pass"
    and g4: "maximum_gate ''2.1'' ?t = Skip (Newer_incompatible_version ''demo'' ''2.0-beta'')"
    using bounds_normalized [of "''2.1''" ?s] bounds_normalized [of "''1.5''" ?s]
      bounds_normalized [of "''2.1''" ?t]
    by (simp_all add: f d c decide_def)
  have v: "hd (split_str dash ''2.1'') = ''2.1''"
    by (simp add: dash_def)
  have "snd (run_signature ''/analyses/1'' ''2.1'' ?s Map.empty) = Inr (Some (matched ?s))"
    using run_signature_evaluates [of ?s Map.empty "''2.1''" "''/analyses/1''"] g1 g3 f v
    by simp
  with d g1 g2 g3 g4 show ?thesis by simp
qed

section \<open>The loops of a run\<close>

lemma modules_invoked_append [simp]:
  "modules_invoked (s @ t) = modules_invoked s @ modules_invoked t"
  by (simp add: modules_invoked_def map_filter_def)

lemma signatures_invoked_append [simp]:
  "signatures_invoked (s @ t) = signatures_invoked s @ signatures_invoked t"
  by (simp add: signatures_invoked_def map_filter_def)

lemma run_processing_produces:
  "produces p m v \<Longrightarrow>
   run_processing p m =
     ([Module_new (m_name m), Module_run (m_name m),
       Log DEBUG (Executed_processing_module (m_name m) p)], Inr (Some (m_key m, v)))"
  by (simp add: produces_def run_processing_def)

lemma run_processing_Some:
  "snd (run_processing p m) = Inr (Some (k, v)) \<Longrightarrow> produces p m v \<and> k = m_key m"
  by (auto simp: produces_def run_processing_def split: sum.splits if_splits exn.splits)

lemma modules_invoked_run_processing:
  "modules_invoked (fst (run_processing p m)) = [m_name m]"
  by (auto simp: run_processing_def modules_invoked_def map_filter_def
      split: sum.splits exn.splits)

lemma signatures_invoked_run_processing:
  "signatures_invoked (fst (run_processing p m)) = []"
  by (auto simp: run_processing_def signatures_invoked_def map_filter_def
      split: sum.splits exn.splits)

lemma run_modules_append:
  "run_modules p (xs @ ys) d =
     (case run_modules p xs d of
        (t, Inl e) \<Rightarrow> (t, Inl e)
      | (t, Inr d') \<Rightarrow> (case run_modules p ys d' of (t', r) \<Rightarrow> (t @ t', r)))"
  by (induction xs arbitrary: d) (auto split: prod.splits sum.splits option.splits)

lemma run_modules_untouched:
  "snd (run_modules p zs d) = Inr d' \<Longrightarrow>
   \<forall>z\<in>set zs. \<forall>w. produces p z w \<longrightarrow> m_key z \<noteq> k \<Longrightarrow> d' k = d k"
proof (induction zs arbitrary: d)
  case Nil
  then show ?case by simp
next
  case (Cons z zs)
  obtain t r where z: "run_processing p z = (t, r)" by (cases "run_processing p z")
  show ?case
  proof (cases r)
    case (Inl e)
    with Cons.prems z show ?thesis by simp
  next
    case (Inr result)
    let ?d = "case result of None \<Rightarrow> d | Some (key, data) \<Rightarrow> d(key \<mapsto> Data data)"
    from Cons.prems(1) z Inr have "snd (run_modules p zs ?d) = Inr d'"
      by (simp split: prod.splits)
    with Cons.IH Cons.prems(2) have "d' k = ?d k" by simp
    moreover have "?d k = d k"
    proof (cases result)
      case None
      then show ?thesis by simp
    next
      case (Some kv)
      obtain key data where kv: "kv = (key, data)" by (cases kv)
      with z Inr Some have "produces p z data \<and> key = m_key z"
        using run_processing_Some [of p z key data] by simp
      with Cons.prems(2) have "key \<noteq> k" by auto
      with Some kv show ?thesis by simp
    qed
    ultimately show ?thesis by simp
  qed
qed

lemma run_modules_last_writer:
  assumes "snd (run_modules p (xs @ b # zs) d) = Inr d'"
    and "produces p b v"
    and "\<forall>z\<in>set zs. \<forall>w. produces p z w \<longrightarrow> m_key z \<noteq> m_key b"
  shows "d' (m_key b) = Some (Data v)"
proof -
  from assms(1) obtain d1 where d1: "snd (run_modules p xs d) = Inr d1"
    and rest: "snd (run_modules p (b # zs) d1) = Inr d'"
    by (auto simp: run_modules_append split: prod.splits sum.splits)
  from rest assms(2) have "snd (run_modules p zs (d1(m_key b \<mapsto> Data v))) = Inr d'"
    by (simp add: run_processing_produces split: prod.splits)
  from run_modules_untouched [OF this assms(3)] show ?thesis by simp
qed

lemma modules_invoked_run_modules:
  "prefix (modules_invoked (fst (run_modules p ms d))) (map m_name ms) \<and>
   (snd (run_modules p ms d) = Inr d' \<longrightarrow>
      modules_invoked (fst (run_modules p ms d)) = map m_name ms)"
proof (induction ms arbitrary: d)
  case Nil
  show ?case by (simp add: modules_invoked_def)
next
  case (Cons m ms)
  obtain t r where m: "run_processing p m = (t, r)" by (cases "run_processing p m")
  then have t: "modules_invoked t = [m_name m]"
    using modules_invoked_run_processing [of p m] by simp
  show ?case
  proof (cases r)
    case (Inl e)
    with m t show ?thesis by simp
  next
    case (Inr result)
    let ?d = "case result of None \<Rightarrow> d | Some (key, data) \<Rightarrow> d(key \<mapsto> Data data)"
    obtain t' r' where rest: "run_modules p ms ?d = (t', r')"
      by (cases "run_modules p ms ?d")
    with Cons.IH [of ?d] have "prefix (modules_invoked t') (map m_name ms)"
      and "r' = Inr d' \<longrightarrow> modules_invoked t' = map m_name ms"
      by simp_all
    with m t Inr rest show ?thesis by simp
  qed
qed

lemma run_Inr:
  assumes "snd (run p V plugins) = Inr doc"
  shows "\<exists>modules signatures results sigs.
           list_processing plugins = Inr modules \<and>
           snd (run_modules p (sort_key m_order modules) Map.empty) = Inr results \<and>
           list_signatures plugins = Inr signatures \<and>
           snd (run_signatures p V signatures results []) = Inr sigs \<and>
           doc = results(''signatures'' \<mapsto> Signatures (sort_key mr_severity sigs))"
  using assms by (auto simp: run_def Let_def split: sum.splits prod.splits)

lemma modules_invoked_run_signature:
  "modules_invoked (fst (run_signature p V s r)) = []"
  by (auto simp: run_signature_def modules_invoked_def map_filter_def Let_def
      split: sum.splits gate.splits)

lemma modules_invoked_run_signatures:
  "modules_invoked (fst (run_signatures p V ss r acc)) = []"
proof (induction ss arbitrary: acc)
  case Nil
  show ?case by (simp add: modules_invoked_def)
next
  case (Cons s ss)
  obtain t x where s: "run_signature p V s r = (t, x)" by (cases "run_signature p V s r")
  then have t: "modules_invoked t = []"
    using modules_invoked_run_signature [of p V s r] by simp
  show ?case
  proof (cases x)
    case (Inl e)
    with s t show ?thesis by simp
  next
    case (Inr match)
    let ?acc = "case match of None \<Rightarrow> acc | Some m \<Rightarrow> acc @ [m]"
    obtain t' x' where rest: "run_signatures p V ss r ?acc = (t', x')"
      by (cases "run_signatures p V ss r ?acc")
    with Cons.IH [of ?acc] have "modules_invoked t' = []" by simp
    with s t Inr rest show ?thesis by simp
  qed
qed


lemma result_at_run:
  "snd (run p V plugins) = Inr doc \<Longrightarrow> result_at (run p V plugins) key = Inr (doc key)"
  by (simp add: result_at_def)

lemma run_signature_result:
  "snd (run_signature p V s r) = Inr m \<Longrightarrow> m = (if fires V r s then Some (matched s) else None)"
  by (auto simp: run_signature_def fires_def passes_gates_def Let_def
      split: sum.splits gate.splits if_splits)

lemma signatures_invoked_run_signature:
  "signatures_invoked (fst (run_signature p V s r)) = [s_name s]"
  by (auto simp: run_signature_def signatures_invoked_def map_filter_def Let_def
      split: sum.splits gate.splits)

lemma run_signatures_collect:
  "snd (run_signatures p V ss r acc) = Inr ms \<Longrightarrow>
   ms = acc @ map matched (filter (fires V r) ss)"
proof (induction ss arbitrary: acc)
  case Nil
  then show ?case by simp
next
  case (Cons s ss)
  obtain t x where s: "run_signature p V s r = (t, x)" by (cases "run_signature p V s r")
  show ?case
  proof (cases x)
    case (Inl e)
    with Cons.prems s show ?thesis by simp
  next
    case (Inr match)
    let ?acc = "case match of None \<Rightarrow> acc | Some m \<Rightarrow> acc @ [m]"
    from Cons.prems s Inr have "snd (run_signatures p V ss r ?acc) = Inr ms"
      by (simp split: prod.splits)
    then have ms: "ms = ?acc @ map matched (filter (fires V r) ss)"
      by (rule Cons.IH)
    from s Inr have "match = (if fires V r s then Some (matched s) else None)"
      using run_signature_result [of p V s r match] by simp
    with ms show ?thesis by simp
  qed
qed

lemma signatures_invoked_run_signatures:
  "prefix (signatures_invoked (fst (run_signatures p V ss r acc))) (map s_name ss) \<and>
   (snd (run_signatures p V ss r acc) = Inr ms \<longrightarrow>
      signatures_invoked (fst (run_signatures p V ss r acc)) = map s_name ss)"
proof (induction ss arbitrary: acc)
  case Nil
  show ?case by (simp add: signatures_invoked_def)
next
  case (Cons s ss)
  obtain t x where s: "run_signature p V s r = (t, x)" by (cases "run_signature p V s r")
  then have t: "signatures_invoked t = [s_name s]"
    using signatures_invoked_run_signature [of p V s r] by simp
  show ?case
  proof (cases x)
    case (Inl e)
    with s t show ?thesis by simp
  next
    case (Inr match)
    let ?acc = "case match of None \<Rightarrow> acc | Some m \<Rightarrow> acc @ [m]"
    obtain t' x' where rest: "run_signatures p V ss r ?acc = (t', x')"
      by (cases "run_signatures p V ss r ?acc")
    with Cons.IH [of ?acc] have "prefix (signatures_invoked t') (map s_name ss)"
      and "x' = Inr ms \<longrightarrow> signatures_invoked t' = map s_name ss"
      by simp_all
    with s t Inr rest show ?thesis by simp
  qed
qed

lemma signatures_invoked_run_modules:
  "signatures_invoked (fst (run_modules p ms d)) = []"
proof (induction ms arbitrary: d)
  case Nil
  show ?case by (simp add: signatures_invoked_def)
next
  case (Cons m ms)
  obtain t x where m: "run_processing p m = (t, x)" by (cases "run_processing p m")
  then have t: "signatures_invoked t = []"
    using signatures_invoked_run_processing [of p m] by simp
  show ?case
  proof (cases x)
    case (Inl e)
    with m t show ?thesis by simp
  next
    case (Inr result)
    let ?d = "case result of None \<Rightarrow> d | Some (key, data) \<Rightarrow> d(key \<mapsto> Data data)"
    obtain t' x' where rest: "run_modules p ms ?d = (t', x')"
      by (cases "run_modules p ms ?d")
    with Cons.IH [of ?d] have "signatures_invoked t' = []" by simp
    with m t Inr rest show ?thesis by simp
  qed
qed

lemma run_Inr_trace:
  assumes "snd (run p V plugins) = Inr doc"
  shows "\<exists>modules signatures results sigs.
           list_processing plugins = Inr modules \<and>
           snd (run_modules p (sort_key m_order modules) Map.empty) = Inr results \<and>
           list_signatures plugins = Inr signatures \<and>
           snd (run_signatures p V signatures results []) = Inr sigs \<and>
           fst (run p V plugins) =
             fst (run_modules p (sort_key m_order modules) Map.empty) @
             fst (run_signatures p V signatures results []) \<and>
           doc = results(''signatures'' \<mapsto> Signatures (sort_key mr_severity sigs))"
  using assms by (auto simp: run_def Let_def split: sum.splits prod.splits)

lemma demo_run:
  "snd (run ''/analyses/1'' ''2.1-dev'' (plugins_of demo_modules demo_signatures)) =
     Inr [''b'' \<mapsto> Data (PyInt 2), ''a'' \<mapsto> Data (PyInt 1),
          ''signatures'' \<mapsto> Signatures
             [matched (signature_class ''S2'' 1 None None (Inr True)),
              matched (signature_class ''S1'' 5 None None (Inr True)),
              matched (signature_class ''S3'' 5 (Some ''1.0'') (Some ''3.0'') (Inr True))]]"
  by (simp add: run_defs demo_defs version_defs matched_def)

lemma demo_fires:
  "filter (fires ''2.1-dev'' results) demo_signatures =
     [signature_class ''S1'' 5 None None (Inr True),
      signature_class ''S2'' 1 None None (Inr True),
      signature_class ''S3'' 5 (Some ''1.0'') (Some ''3.0'') (Inr True)]"
  by (simp add: fires_def passes_gates_def minimum_gate_def maximum_gate_def demo_defs
      version_defs)


section \<open>The order of the processing modules\<close>



section \<open>Two modules with the same key\<close>

text \<open>
  Claim C3, as the code has it. Of two enabled, successful processing modules that
  declare the same result key, other than the key \<open>signatures\<close>, the one that stands
  later in the sequence sorted by \<open>order\<close> determines the value under that key in the
  returned results, when no successful module after it declares the key again.
\<close>

theorem later_module_determines_key:
  assumes "list_processing plugins = Inr modules"
    and "sort_key m_order modules = before @ a # between @ b # after"
    and "produces analysis_path a va"
    and "produces analysis_path b vb"
    and "m_key a = m_key b"
    and "\<forall>z\<in>set after. \<forall>w. produces analysis_path z w \<longrightarrow> m_key z \<noteq> m_key b"
    and "m_key b \<noteq> ''signatures''"
    and "snd (run analysis_path CUCKOO_VERSION plugins) = Inr doc"
  shows "doc (m_key b) = Some (Data vb)"
proof -
  from run_Inr [OF assms(8)] assms(1) obtain results sigs
    where r: "snd (run_modules analysis_path (sort_key m_order modules) Map.empty) = Inr results"
      and d: "doc = results(''signatures'' \<mapsto> Signatures (sort_key mr_severity sigs))"
    by auto
  from r assms(2)
  have "snd (run_modules analysis_path ((before @ a # between) @ b # after) Map.empty)
          = Inr results"
    by simp
  from run_modules_last_writer [OF this assms(4) assms(6)]
  have "results (m_key b) = Some (Data vb)" .
  with d assms(7) show ?thesis by simp
qed

theorem later_module_determines_key_witness:
  "result_at
     (run ''/analyses/1'' ''2.1''
        (plugins_of [module_class ''A'' 2 ''k'' (Inr (PyInt 1)),
                     module_class ''B'' 1 ''k'' (Inr (PyInt 2))] [])) ''k''
     = Inr (Some (Data (PyInt 1)))"
proof -
  let ?A = "module_class ''A'' 2 ''k'' (Inr (PyInt 1))"
  let ?B = "module_class ''B'' 1 ''k'' (Inr (PyInt 2))"
  let ?P = "plugins_of [?A, ?B] []"
  have l: "list_processing ?P = Inr [?A, ?B]"
    by (simp add: plugins_of_def)
  have s: "sort_key m_order [?A, ?B] = [] @ ?B # [] @ ?A # []"
    by (simp add: example_defs)
  have pa: "produces ''/analyses/1'' ?A (PyInt 1)" and pb: "produces ''/analyses/1'' ?B (PyInt 2)"
    by (simp_all add: produces_def example_defs)
  have k: "m_key ?B = m_key ?A" "m_key ?A \<noteq> ''signatures''" "m_key ?A = ''k''"
    by (simp_all add: example_defs)
  have n: "\<forall>z\<in>set []. \<forall>w. produces ''/analyses/1'' z w \<longrightarrow> m_key z \<noteq> m_key ?A"
    by simp
  obtain doc where r: "snd (run ''/analyses/1'' ''2.1'' ?P) = Inr doc"
    by (simp add: run_def plugins_of_def run_processing_def example_defs)
  from later_module_determines_key [OF l s pb pa k(1) n k(2) r]
  have "doc ''k'' = Some (Data (PyInt 1))" by (simp add: k(3))
  with result_at_run [OF r, of "''k''"] show ?thesis by simp
qed

text \<open>
  The claim as it is written fails twice. Two successful modules that both declare the
  key \<open>signatures\<close> leave the list of matched signatures under it, not the value of the
  later one. Of three successful modules with the key \<open>k\<close>, the pair of the first two
  does not decide: the value is the third's.
\<close>

theorem later_module_determines_key_counterexample:
  "produces ''/analyses/1'' (module_class ''A'' 1 ''signatures'' (Inr (PyInt 1))) (PyInt 1) \<and>
   produces ''/analyses/1'' (module_class ''B'' 2 ''signatures'' (Inr (PyInt 2))) (PyInt 2) \<and>
   sort_key m_order [module_class ''A'' 1 ''signatures'' (Inr (PyInt 1)),
                     module_class ''B'' 2 ''signatures'' (Inr (PyInt 2))]
     = [module_class ''A'' 1 ''signatures'' (Inr (PyInt 1)),
        module_class ''B'' 2 ''signatures'' (Inr (PyInt 2))] \<and>
   result_at
     (run ''/analyses/1'' ''2.1''
        (plugins_of [module_class ''A'' 1 ''signatures'' (Inr (PyInt 1)),
                     module_class ''B'' 2 ''signatures'' (Inr (PyInt 2))] [])) ''signatures''
     = Inr (Some (Signatures [])) \<and>
   result_at
     (run ''/analyses/1'' ''2.1''
        (plugins_of [module_class ''A'' 1 ''k'' (Inr (PyInt 1)),
                     module_class ''B'' 2 ''k'' (Inr (PyInt 2)),
                     module_class ''C'' 3 ''k'' (Inr (PyInt 3))] [])) ''k''
     = Inr (Some (Data (PyInt 3)))"
  by (simp add: result_at_def run_def plugins_of_def run_processing_def produces_def
      example_defs)

section \<open>A module that raises its analysis error\<close>

text \<open>
  Claim C8. An enabled processing module whose \<open>run\<close> raises \<open>CuckooProcessingError\<close>
  makes the processing runner log a warning and return \<open>None\<close>; the loop over the
  modules then goes on with the modules after it, from the results the modules before it
  left: the module adds no key and every later module is still run.
\<close>

theorem analysis_error_skipped:
  assumes "m_new module = Inr ()"
    and "m_set_path module analysis_path = Inr ()"
    and "m_config module = Inr ()"
    and "m_enabled module"
    and "m_run module analysis_path = Inl (CuckooProcessingError e)"
    and "snd (run_modules analysis_path before Map.empty) = Inr results"
  shows "run_processing analysis_path module =
           ([Module_new (m_name module), Module_run (m_name module),
             Log WARNING (Processing_module_returned_error (m_name module) e)], Inr None) \<and>
         run_modules analysis_path (before @ module # after) Map.empty =
           (fst (run_modules analysis_path before Map.empty) @
            fst (run_processing analysis_path module) @
            fst (run_modules analysis_path after results),
            snd (run_modules analysis_path after results))"
proof -
  have rp: "run_processing analysis_path module =
           ([Module_new (m_name module), Module_run (m_name module),
             Log WARNING (Processing_module_returned_error (m_name module) e)], Inr None)"
    using assms(1-5) by (simp add: run_processing_def)
  obtain t where b: "run_modules analysis_path before Map.empty = (t, Inr results)"
    using assms(6) by (cases "run_modules analysis_path before Map.empty") simp
  obtain t' r' where a: "run_modules analysis_path after results = (t', r')"
    by (cases "run_modules analysis_path after results")
  show ?thesis
    using rp b a by (simp add: run_modules_append)
qed

theorem analysis_error_skipped_witness:
  "run_modules ''/analyses/1''
     ([module_class ''A'' 1 ''a'' (Inr (PyInt 1))] @
      module_class ''B'' 2 ''b'' (Inl (CuckooProcessingError ''malformed'')) #
      [module_class ''C'' 3 ''c'' (Inr (PyInt 3))]) Map.empty =
     ([Module_new ''A'', Module_run ''A'',
       Log DEBUG (Executed_processing_module ''A'' ''/analyses/1''),
       Module_new ''B'', Module_run ''B'',
       Log WARNING (Processing_module_returned_error ''B'' ''malformed''),
       Module_new ''C'', Module_run ''C'',
       Log DEBUG (Executed_processing_module ''C'' ''/analyses/1'')],
      Inr [''a'' \<mapsto> Data (PyInt 1), ''c'' \<mapsto> Data (PyInt 3)])"
proof -
  let ?A = "module_class ''A'' 1 ''a'' (Inr (PyInt 1))"
  let ?B = "module_class ''B'' 2 ''b'' (Inl (CuckooProcessingError ''malformed''))"
  let ?C = "module_class ''C'' 3 ''c'' (Inr (PyInt 3))"
  have h: "m_new ?B = Inr ()" "m_set_path ?B ''/analyses/1'' = Inr ()" "m_config ?B = Inr ()"
    "m_enabled ?B" "m_run ?B ''/analyses/1'' = Inl (CuckooProcessingError ''malformed'')"
    by (simp_all add: example_defs)
  have b: "run_modules ''/analyses/1'' [?A] Map.empty =
             ([Module_new ''A'', Module_run ''A'',
               Log DEBUG (Executed_processing_module ''A'' ''/analyses/1'')],
              Inr [''a'' \<mapsto> Data (PyInt 1)])"
    by (simp add: run_processing_def example_defs)
  then have b': "snd (run_modules ''/analyses/1'' [?A] Map.empty) = Inr [''a'' \<mapsto> Data (PyInt 1)]"
    by simp
  have a: "run_modules ''/analyses/1'' [?C] [''a'' \<mapsto> Data (PyInt 1)] =
             ([Module_new ''C'', Module_run ''C'',
               Log DEBUG (Executed_processing_module ''C'' ''/analyses/1'')],
              Inr [''a'' \<mapsto> Data (PyInt 1), ''c'' \<mapsto> Data (PyInt 3)])"
    by (simp add: run_processing_def example_defs)
  have n: "m_name ?B = ''B''" by (simp add: example_defs)
  from analysis_error_skipped [OF h b', of "[?C]"]
  have rp: "run_processing ''/analyses/1'' ?B =
              ([Module_new (m_name ?B), Module_run (m_name ?B),
                Log WARNING (Processing_module_returned_error (m_name ?B) ''malformed'')],
               Inr None)"
    and whole: "run_modules ''/analyses/1'' ([?A] @ ?B # [?C]) Map.empty =
                  (fst (run_modules ''/analyses/1'' [?A] Map.empty) @
                   fst (run_processing ''/analyses/1'' ?B) @
                   fst (run_modules ''/analyses/1'' [?C] [''a'' \<mapsto> Data (PyInt 1)]),
                   snd (run_modules ''/analyses/1'' [?C] [''a'' \<mapsto> Data (PyInt 1)]))"
    by blast+
  show ?thesis
    unfolding whole b a rp n by simp
qed

section \<open>A module that returns a falsy value\<close>

text \<open>
  Claim C10, as the code has it. For an enabled processing module whose \<open>run\<close> returns a
  falsy value, the processing runner returns the fragment of the module's key and that
  value, and the returned results hold the value under the key, when the key is not
  \<open>signatures\<close> and no successful module later in the sorted sequence declares the same
  key.
\<close>

theorem falsy_data_merged:
  assumes "produces analysis_path module data"
    and "\<not> truthy data"
    and "list_processing plugins = Inr modules"
    and "sort_key m_order modules = before @ module # after"
    and "\<forall>z\<in>set after. \<forall>w. produces analysis_path z w \<longrightarrow> m_key z \<noteq> m_key module"
    and "m_key module \<noteq> ''signatures''"
    and "snd (run analysis_path CUCKOO_VERSION plugins) = Inr doc"
  shows "snd (run_processing analysis_path module) = Inr (Some (m_key module, data)) \<and>
         doc (m_key module) = Some (Data data)"
proof -
  from run_Inr [OF assms(7)] assms(3) obtain results sigs
    where r: "snd (run_modules analysis_path (sort_key m_order modules) Map.empty) = Inr results"
      and d: "doc = results(''signatures'' \<mapsto> Signatures (sort_key mr_severity sigs))"
    by auto
  from r assms(4)
  have "snd (run_modules analysis_path (before @ module # after) Map.empty) = Inr results"
    by simp
  from run_modules_last_writer [OF this assms(1) assms(5)]
  have "results (m_key module) = Some (Data data)" .
  with d assms(6) have "doc (m_key module) = Some (Data data)" by simp
  then show ?thesis
    using assms(1) by (simp add: run_processing_produces)
qed

theorem falsy_data_merged_witness:
  "snd (run_processing ''/analyses/1'' (module_class ''A'' 1 ''a'' (Inr PyNone)))
     = Inr (Some (''a'', PyNone)) \<and>
   result_at
     (run ''/analyses/1'' ''2.1''
        (plugins_of [module_class ''B'' 2 ''b'' (Inr (PyList [])),
                     module_class ''A'' 1 ''a'' (Inr PyNone)] [])) ''a''
     = Inr (Some (Data PyNone))"
proof -
  let ?A = "module_class ''A'' 1 ''a'' (Inr PyNone)"
  let ?B = "module_class ''B'' 2 ''b'' (Inr (PyList []))"
  let ?P = "plugins_of [?B, ?A] []"
  have p: "produces ''/analyses/1'' ?A PyNone" "\<not> truthy PyNone"
    by (simp_all add: produces_def example_defs)
  have l: "list_processing ?P = Inr [?B, ?A]"
    by (simp add: plugins_of_def)
  have s: "sort_key m_order [?B, ?A] = [] @ ?A # [?B]"
    by (simp add: example_defs)
  have n: "\<forall>z\<in>set [?B]. \<forall>w. produces ''/analyses/1'' z w \<longrightarrow> m_key z \<noteq> m_key ?A"
    by (simp add: example_defs)
  have k: "m_key ?A \<noteq> ''signatures''" "m_key ?A = ''a''"
    by (simp_all add: example_defs)
  obtain doc where r: "snd (run ''/analyses/1'' ''2.1'' ?P) = Inr doc"
    by (simp add: run_def plugins_of_def run_processing_def example_defs)
  from falsy_data_merged [OF p l s n k(1) r] result_at_run [OF r, of "''a''"]
  show ?thesis by (simp add: k(2))
qed

text \<open>
  The claim as it is written fails: module \<open>A\<close> returns \<open>None\<close> under the key \<open>k\<close>, the
  later module \<open>B\<close> returns \<open>7\<close> under the same key, and the returned results hold \<open>7\<close>.
\<close>

theorem falsy_data_merged_counterexample:
  "produces ''/analyses/1'' (module_class ''A'' 1 ''k'' (Inr PyNone)) PyNone \<and>
   \<not> truthy PyNone \<and>
   result_at
     (run ''/analyses/1'' ''2.1''
        (plugins_of [module_class ''A'' 1 ''k'' (Inr PyNone),
                     module_class ''B'' 2 ''k'' (Inr (PyInt 7))] [])) ''k''
     = Inr (Some (Data (PyInt 7)))"
  by (simp add: result_at_def run_def plugins_of_def run_processing_def produces_def
      example_defs)

section \<open>The list of matched signatures\<close>

text \<open>
  Claim C4. In the results a run returns, the list under the key \<open>signatures\<close> is sorted
  by severity, lowest first, and the matches of one severity stand in the order in which
  their signatures were evaluated, which is the order of the registry.
\<close>

theorem signatures_sorted_by_severity:
  assumes "snd (run analysis_path CUCKOO_VERSION plugins) = Inr doc"
  shows "\<exists>modules results signatures sigs.
           list_processing plugins = Inr modules \<and>
           snd (run_modules analysis_path (sort_key m_order modules) Map.empty) = Inr results \<and>
           list_signatures plugins = Inr signatures \<and>
           signatures_invoked (fst (run analysis_path CUCKOO_VERSION plugins))
             = map s_name signatures \<and>
           doc ''signatures'' = Some (Signatures sigs) \<and>
           sorted (map mr_severity sigs) \<and>
           (\<forall>k. filter (\<lambda>m. mr_severity m = k) sigs =
                map matched
                  (filter (\<lambda>s. fires CUCKOO_VERSION results s \<and> s_severity s = k) signatures))"
proof -
  from run_Inr_trace [OF assms] obtain modules signatures results ms
    where m: "list_processing plugins = Inr modules"
      and r: "snd (run_modules analysis_path (sort_key m_order modules) Map.empty) = Inr results"
      and s: "list_signatures plugins = Inr signatures"
      and c: "snd (run_signatures analysis_path CUCKOO_VERSION signatures results []) = Inr ms"
      and t: "fst (run analysis_path CUCKOO_VERSION plugins) =
                fst (run_modules analysis_path (sort_key m_order modules) Map.empty) @
                fst (run_signatures analysis_path CUCKOO_VERSION signatures results [])"
      and d: "doc = results(''signatures'' \<mapsto> Signatures (sort_key mr_severity ms))"
    by blast
  from run_signatures_collect [OF c]
  have ms: "ms = map matched (filter (fires CUCKOO_VERSION results) signatures)" by simp
  have inv: "signatures_invoked (fst (run analysis_path CUCKOO_VERSION plugins))
               = map s_name signatures"
    using t c signatures_invoked_run_signatures
            [of analysis_path CUCKOO_VERSION signatures results "[]" ms]
    by (simp add: signatures_invoked_run_modules)
  have sev: "mr_severity (matched s) = s_severity s" for s
    by (simp add: matched_def)
  have stable: "filter (\<lambda>m. mr_severity m = k) (sort_key mr_severity ms) =
        map matched
          (filter (\<lambda>s. fires CUCKOO_VERSION results s \<and> s_severity s = k) signatures)" for k
    by (simp add: sort_key_stable ms filter_map o_def sev conj_commute)
  have "doc ''signatures'' = Some (Signatures (sort_key mr_severity ms))"
    using d by simp
  moreover have "sorted (map mr_severity (sort_key mr_severity ms))"
    by simp
  ultimately show ?thesis
    using m r s inv stable by blast
qed

theorem signatures_sorted_by_severity_witness:
  "result_at (run ''/analyses/1'' ''2.1-dev'' (plugins_of demo_modules demo_signatures))
       ''signatures''
     = Inr (Some (Signatures
         [matched (signature_class ''S2'' 1 None None (Inr True)),
          matched (signature_class ''S1'' 5 None None (Inr True)),
          matched (signature_class ''S3'' 5 (Some ''1.0'') (Some ''3.0'') (Inr True))])) \<and>
   sorted (map mr_severity
         [matched (signature_class ''S2'' 1 None None (Inr True)),
          matched (signature_class ''S1'' 5 None None (Inr True)),
          matched (signature_class ''S3'' 5 (Some ''1.0'') (Some ''3.0'') (Inr True))])"
proof -
  let ?P = "plugins_of demo_modules demo_signatures"
  let ?l = "[matched (signature_class ''S2'' 1 None None (Inr True)),
          matched (signature_class ''S1'' 5 None None (Inr True)),
          matched (signature_class ''S3'' 5 (Some ''1.0'') (Some ''3.0'') (Inr True))]"
  note r = demo_run
  have a: "result_at (run ''/analyses/1'' ''2.1-dev'' ?P) ''signatures''
             = Inr (Some (Signatures ?l))"
    using result_at_run [OF r, of "''signatures''"] by simp
  from signatures_sorted_by_severity [OF r] obtain sigs
    where "[''b'' \<mapsto> Data (PyInt 2), ''a'' \<mapsto> Data (PyInt 1),
            ''signatures'' \<mapsto> Signatures ?l] ''signatures'' = Some (Signatures sigs)"
      and "sorted (map mr_severity sigs)"
    by blast
  then have "sorted (map mr_severity ?l)" by simp
  with a show ?thesis by simp
qed

text \<open>
  Claim C5. In the results a run returns, the list under the key \<open>signatures\<close> has as
  many entries as there are signatures that pass the enabled gate and both version gates
  and whose \<open>run\<close> returns a true value on the merged results. A signature that is
  disabled, skipped by a version gate, fails in its \<open>run\<close> or does not match adds none.
\<close>

theorem signatures_count:
  assumes "snd (run analysis_path CUCKOO_VERSION plugins) = Inr doc"
  shows "\<exists>modules results signatures sigs.
           list_processing plugins = Inr modules \<and>
           snd (run_modules analysis_path (sort_key m_order modules) Map.empty) = Inr results \<and>
           list_signatures plugins = Inr signatures \<and>
           doc ''signatures'' = Some (Signatures sigs) \<and>
           length sigs = length (filter (fires CUCKOO_VERSION results) signatures)"
proof -
  from run_Inr [OF assms] obtain modules signatures results ms
    where m: "list_processing plugins = Inr modules"
      and r: "snd (run_modules analysis_path (sort_key m_order modules) Map.empty) = Inr results"
      and s: "list_signatures plugins = Inr signatures"
      and c: "snd (run_signatures analysis_path CUCKOO_VERSION signatures results []) = Inr ms"
      and d: "doc = results(''signatures'' \<mapsto> Signatures (sort_key mr_severity ms))"
    by blast
  from run_signatures_collect [OF c]
  have "length ms = length (filter (fires CUCKOO_VERSION results) signatures)" by simp
  then have "length (sort_key mr_severity ms)
               = length (filter (fires CUCKOO_VERSION results) signatures)"
    by simp
  moreover have "doc ''signatures'' = Some (Signatures (sort_key mr_severity ms))"
    using d by simp
  ultimately show ?thesis
    using m r s by blast
qed

theorem signatures_count_witness:
  "\<exists>sigs. result_at (run ''/analyses/1'' ''2.1-dev'' (plugins_of demo_modules demo_signatures))
              ''signatures'' = Inr (Some (Signatures sigs)) \<and>
          length sigs = 3 \<and> length demo_signatures = 7"
proof -
  let ?P = "plugins_of demo_modules demo_signatures"
  note r = demo_run
  from signatures_count [OF r] obtain results signatures sigs
    where s: "list_signatures ?P = Inr signatures"
      and d: "[''b'' \<mapsto> Data (PyInt 2), ''a'' \<mapsto> Data (PyInt 1),
            ''signatures'' \<mapsto> Signatures
             [matched (signature_class ''S2'' 1 None None (Inr True)),
              matched (signature_class ''S1'' 5 None None (Inr True)),
              matched (signature_class ''S3'' 5 (Some ''1.0'') (Some ''3.0'') (Inr True))]]
              ''signatures'' = Some (Signatures sigs)"
      and n: "length sigs = length (filter (fires ''2.1-dev'' results) signatures)"
    by blast
  from s have "signatures = demo_signatures" by (simp add: plugins_of_def)
  with n have "length sigs = 3" by (simp add: demo_fires)
  moreover have "result_at (run ''/analyses/1'' ''2.1-dev'' ?P) ''signatures''
                   = Inr (Some (Signatures sigs))"
    using result_at_run [OF r, of "''signatures''"] d by simp
  moreover have "length demo_signatures = 7" by (simp add: demo_signatures_def)
  ultimately show ?thesis by blast
qed

section \<open>Failures of a unit\<close>

lemma run_processing_fault:
  "module_fault p m = Some e \<Longrightarrow> snd (run_processing p m) = Inl e"
  by (auto simp: module_fault_def run_processing_def
      split: sum.splits if_splits exn.splits)

lemma run_processing_no_fault:
  assumes "module_fault p m = None"
  shows "\<exists>r. snd (run_processing p m) = Inr r \<and>
             (case r of None \<Rightarrow> d | Some (key, data) \<Rightarrow> d(key \<mapsto> Data data))
               = contribution p m d"
  using assms
  by (auto simp: module_fault_def run_processing_def contribution_def
      split: sum.splits if_splits exn.splits)

lemma run_modules_no_fault:
  "\<forall>m\<in>set ms. module_fault p m = None \<Longrightarrow>
   snd (run_modules p ms d) = Inr (foldl (\<lambda>results m. contribution p m results) d ms)"
proof (induction ms arbitrary: d)
  case Nil
  show ?case by simp
next
  case (Cons m ms)
  from Cons.prems have "module_fault p m = None" by simp
  from run_processing_no_fault [OF this, of d] obtain r
    where r: "snd (run_processing p m) = Inr r"
      and c: "(case r of None \<Rightarrow> d | Some (key, data) \<Rightarrow> d(key \<mapsto> Data data))
                = contribution p m d"
    by blast
  from r obtain t where m: "run_processing p m = (t, Inr r)"
    by (cases "run_processing p m") simp
  from Cons.IH [of "contribution p m d"] Cons.prems
  have "snd (run_modules p ms (contribution p m d))
          = Inr (foldl (\<lambda>results m. contribution p m results) (contribution p m d) ms)"
    by simp
  with m c show ?case by (auto split: prod.splits)
qed

lemma run_modules_fault:
  assumes "\<forall>b\<in>set before. module_fault p b = None"
    and "module_fault p m = Some e"
  shows "snd (run_modules p (before @ m # after) d) = Inl e \<and>
         modules_invoked (fst (run_modules p (before @ m # after) d))
           = map m_name (before @ [m])"
proof -
  let ?d = "foldl (\<lambda>results m. contribution p m results) d before"
  from run_modules_no_fault [OF assms(1)]
  have "snd (run_modules p before d) = Inr ?d" .
  then obtain t where b: "run_modules p before d = (t, Inr ?d)"
    by (cases "run_modules p before d") simp
  with modules_invoked_run_modules [of p before d ?d]
  have t: "modules_invoked t = map m_name before" by simp
  obtain t' where m: "run_processing p m = (t', Inl e)"
    using run_processing_fault [OF assms(2)] by (cases "run_processing p m") simp
  with modules_invoked_run_processing [of p m]
  have t': "modules_invoked t' = [m_name m]" by simp
  from b m t t' show ?thesis
    by (simp add: run_modules_append)
qed

lemma run_signature_fault:
  "signature_fault V r s = Some e \<Longrightarrow> snd (run_signature p V s r) = Inl e"
  by (auto simp: signature_fault_def run_signature_def Let_def
      split: sum.splits if_splits gate.splits)

lemma run_signature_no_fault:
  "signature_fault V r s = None \<Longrightarrow>
   snd (run_signature p V s r) = Inr (if fires V r s then Some (matched s) else None)"
  by (auto simp: signature_fault_def run_signature_def fires_def passes_gates_def Let_def
      split: sum.splits if_splits gate.splits)

lemma run_signatures_no_fault:
  "\<forall>s\<in>set ss. signature_fault V r s = None \<Longrightarrow>
   snd (run_signatures p V ss r acc) = Inr (acc @ map matched (filter (fires V r) ss))"
proof (induction ss arbitrary: acc)
  case Nil
  show ?case by simp
next
  case (Cons s ss)
  from Cons.prems have "signature_fault V r s = None" by simp
  from run_signature_no_fault [OF this, of p]
  obtain t where s: "run_signature p V s r
      = (t, Inr (if fires V r s then Some (matched s) else None))"
    by (cases "run_signature p V s r") simp
  let ?acc = "case (if fires V r s then Some (matched s) else None) of
                None \<Rightarrow> acc | Some m \<Rightarrow> acc @ [m]"
  from Cons.IH [of ?acc] Cons.prems
  have "snd (run_signatures p V ss r ?acc)
          = Inr (?acc @ map matched (filter (fires V r) ss))"
    by simp
  with s show ?case by (auto split: prod.splits)
qed

lemma run_signatures_append:
  "run_signatures p V (xs @ ys) r acc =
     (case run_signatures p V xs r acc of
        (t, Inl e) \<Rightarrow> (t, Inl e)
      | (t, Inr acc') \<Rightarrow> (case run_signatures p V ys r acc' of (t', x) \<Rightarrow> (t @ t', x)))"
  by (induction xs arbitrary: acc) (auto split: prod.splits sum.splits option.splits)

lemma run_signatures_fault:
  assumes "\<forall>b\<in>set before. signature_fault V r b = None"
    and "signature_fault V r s = Some e"
  shows "snd (run_signatures p V (before @ s # after) r acc) = Inl e"
proof -
  let ?acc = "acc @ map matched (filter (fires V r) before)"
  from run_signatures_no_fault [OF assms(1)]
  have "snd (run_signatures p V before r acc) = Inr ?acc" .
  then obtain t where b: "run_signatures p V before r acc = (t, Inr ?acc)"
    by (cases "run_signatures p V before r acc") simp
  obtain t' where s: "run_signature p V s r = (t', Inl e)"
    using run_signature_fault [OF assms(2), of p] by (cases "run_signature p V s r") simp
  from b s show ?thesis
    by (simp add: run_signatures_append)
qed

text \<open>
  Claim C1, as the code has it. A failure of the \<open>Exception\<close> hierarchy raised by the
  \<open>run\<close> of a processing module or of a signature is kept inside the unit. When the
  registry supplies both lists and no unit has a failure of another kind, the run returns:
  it reaches every module of the sorted sequence and every signature, and its results are
  the fragments of the enabled modules whose \<open>run\<close> returned, merged in sorted order,
  with the matches of the signatures that passed the gates and whose \<open>run\<close> returned a
  true value, so a unit whose \<open>run\<close> failed adds nothing. The other failures of a unit
  leave the run: what the constructor of a module, its \<open>set_path\<close> or the loading of its
  configuration raises, what the constructor of a signature raises, the
  \<open>AttributeError\<close> of a version comparison, and an exception outside the \<open>Exception\<close>
  hierarchy raised by a \<open>run\<close>. The first unit with such a failure ends the run with it.
\<close>

theorem run_failures_isolated:
  assumes "list_processing plugins = Inr modules"
    and "list_signatures plugins = Inr signatures"
  shows "((\<forall>m\<in>set modules. module_fault analysis_path m = None) \<longrightarrow>
          (\<forall>s\<in>set signatures.
              signature_fault CUCKOO_VERSION
                (merged analysis_path (sort_key m_order modules)) s = None) \<longrightarrow>
            snd (run analysis_path CUCKOO_VERSION plugins) =
              Inr ((merged analysis_path (sort_key m_order modules))
                     (''signatures'' \<mapsto> Signatures (sort_key mr_severity (map matched
                        (filter (fires CUCKOO_VERSION
                                   (merged analysis_path (sort_key m_order modules)))
                           signatures))))) \<and>
            modules_invoked (fst (run analysis_path CUCKOO_VERSION plugins))
              = map m_name (sort_key m_order modules) \<and>
            signatures_invoked (fst (run analysis_path CUCKOO_VERSION plugins))
              = map s_name signatures) \<and>
         (sort_key m_order modules = before @ module # after \<longrightarrow>
          (\<forall>b\<in>set before. module_fault analysis_path b = None) \<longrightarrow>
          module_fault analysis_path module = Some e \<longrightarrow>
            snd (run analysis_path CUCKOO_VERSION plugins) = Inl e \<and>
            modules_invoked (fst (run analysis_path CUCKOO_VERSION plugins))
              = map m_name (before @ [module])) \<and>
         ((\<forall>m\<in>set modules. module_fault analysis_path m = None) \<longrightarrow>
          signatures = earlier @ current # later \<longrightarrow>
          (\<forall>b\<in>set earlier.
              signature_fault CUCKOO_VERSION
                (merged analysis_path (sort_key m_order modules)) b = None) \<longrightarrow>
          signature_fault CUCKOO_VERSION
            (merged analysis_path (sort_key m_order modules)) current = Some e' \<longrightarrow>
            snd (run analysis_path CUCKOO_VERSION plugins) = Inl e')"
proof -
  let ?ms = "sort_key m_order modules"
  let ?r = "merged analysis_path ?ms"
  have modules_ok: "run_modules analysis_path ?ms Map.empty
                      = (fst (run_modules analysis_path ?ms Map.empty), Inr ?r)"
    if "\<forall>m\<in>set modules. module_fault analysis_path m = None"
  proof -
    from that have "\<forall>m\<in>set ?ms. module_fault analysis_path m = None" by simp
    from run_modules_no_fault [OF this, of Map.empty]
    have "snd (run_modules analysis_path ?ms Map.empty) = Inr ?r"
      by (simp add: merged_def)
    then show ?thesis
      by (cases "run_modules analysis_path ?ms Map.empty") simp
  qed
  have isolated: "snd (run analysis_path CUCKOO_VERSION plugins) =
              Inr (?r(''signatures'' \<mapsto> Signatures (sort_key mr_severity (map matched
                        (filter (fires CUCKOO_VERSION ?r) signatures))))) \<and>
            modules_invoked (fst (run analysis_path CUCKOO_VERSION plugins))
              = map m_name ?ms \<and>
            signatures_invoked (fst (run analysis_path CUCKOO_VERSION plugins))
              = map s_name signatures"
    if m: "\<forall>m\<in>set modules. module_fault analysis_path m = None"
      and s: "\<forall>s\<in>set signatures. signature_fault CUCKOO_VERSION ?r s = None"
  proof -
    let ?sigs = "map matched (filter (fires CUCKOO_VERSION ?r) signatures)"
    obtain t1 where a: "run_modules analysis_path ?ms Map.empty = (t1, Inr ?r)"
      using modules_ok [OF m] by blast
    from run_signatures_no_fault [OF s, of analysis_path "[]"]
    obtain t2 where b: "run_signatures analysis_path CUCKOO_VERSION signatures ?r []
                          = (t2, Inr ?sigs)"
      by (cases "run_signatures analysis_path CUCKOO_VERSION signatures ?r []") simp
    have r: "run analysis_path CUCKOO_VERSION plugins =
               (t1 @ t2, Inr (?r(''signatures'' \<mapsto> Signatures (sort_key mr_severity ?sigs))))"
      using assms a b by (simp add: run_def)
    have "modules_invoked t1 = map m_name ?ms"
      using modules_invoked_run_modules [of analysis_path ?ms Map.empty ?r] a by simp
    moreover have "modules_invoked t2 = []"
      using modules_invoked_run_signatures [of analysis_path CUCKOO_VERSION signatures ?r "[]"] b
      by simp
    moreover have "signatures_invoked t1 = []"
      using signatures_invoked_run_modules [of analysis_path ?ms Map.empty] a by simp
    moreover have "signatures_invoked t2 = map s_name signatures"
      using signatures_invoked_run_signatures
              [of analysis_path CUCKOO_VERSION signatures ?r "[]" ?sigs] b
      by simp
    ultimately show ?thesis
      using r by simp
  qed
  have module_leaves: "snd (run analysis_path CUCKOO_VERSION plugins) = Inl e \<and>
            modules_invoked (fst (run analysis_path CUCKOO_VERSION plugins))
              = map m_name (before @ [module])"
    if d: "?ms = before @ module # after"
      and b: "\<forall>b\<in>set before. module_fault analysis_path b = None"
      and f: "module_fault analysis_path module = Some e"
  proof -
    from run_modules_fault [OF b f, of after Map.empty] d
    have x: "snd (run_modules analysis_path ?ms Map.empty) = Inl e"
      and y: "modules_invoked (fst (run_modules analysis_path ?ms Map.empty))
                = map m_name (before @ [module])"
      by simp_all
    from x obtain t1 where a: "run_modules analysis_path ?ms Map.empty = (t1, Inl e)"
      by (cases "run_modules analysis_path ?ms Map.empty") simp
    with assms(1) have "run analysis_path CUCKOO_VERSION plugins = (t1, Inl e)"
      by (simp add: run_def)
    with a y show ?thesis by simp
  qed
  have signature_leaves: "snd (run analysis_path CUCKOO_VERSION plugins) = Inl e'"
    if m: "\<forall>m\<in>set modules. module_fault analysis_path m = None"
      and d: "signatures = earlier @ current # later"
      and b: "\<forall>b\<in>set earlier. signature_fault CUCKOO_VERSION ?r b = None"
      and f: "signature_fault CUCKOO_VERSION ?r current = Some e'"
  proof -
    obtain t1 where a: "run_modules analysis_path ?ms Map.empty = (t1, Inr ?r)"
      using modules_ok [OF m] by blast
    from run_signatures_fault [OF b f, of analysis_path later "[]"] d
    have "snd (run_signatures analysis_path CUCKOO_VERSION signatures ?r []) = Inl e'"
      by simp
    then obtain t2
      where "run_signatures analysis_path CUCKOO_VERSION signatures ?r [] = (t2, Inl e')"
      by (cases "run_signatures analysis_path CUCKOO_VERSION signatures ?r []") simp
    with assms a show ?thesis
      by (simp add: run_def)
  qed
  show ?thesis
    using isolated module_leaves signature_leaves by blast
qed

theorem run_failures_isolated_witness:
  "snd (run ''/analyses/1'' ''2.1-dev'' (plugins_of demo_modules demo_signatures)) =
     Inr [''b'' \<mapsto> Data (PyInt 2), ''a'' \<mapsto> Data (PyInt 1),
          ''signatures'' \<mapsto> Signatures
             [matched (signature_class ''S2'' 1 None None (Inr True)),
              matched (signature_class ''S1'' 5 None None (Inr True)),
              matched (signature_class ''S3'' 5 (Some ''1.0'') (Some ''3.0'') (Inr True))]] \<and>
   modules_invoked (fst (run ''/analyses/1'' ''2.1-dev'' (plugins_of demo_modules demo_signatures)))
     = [''B'', ''A'', ''C''] \<and>
   signatures_invoked
       (fst (run ''/analyses/1'' ''2.1-dev'' (plugins_of demo_modules demo_signatures)))
     = [''S1'', ''S2'', ''S3'', ''S4'', ''S5'', ''S6'', ''S7''] \<and>
   snd (run ''/analyses/1'' ''2.1''
          (plugins_of
             [module_class ''A'' 1 ''a'' (Inr (PyInt 1)),
              (module_class ''B'' 2 ''b'' (Inr (PyInt 2)))
                \<lparr>m_config := Inl (OtherException ''no configuration'')\<rparr>,
              module_class ''C'' 3 ''c'' (Inr (PyInt 3))] []))
     = Inl (OtherException ''no configuration'') \<and>
   modules_invoked
     (fst (run ''/analyses/1'' ''2.1''
          (plugins_of
             [module_class ''A'' 1 ''a'' (Inr (PyInt 1)),
              (module_class ''B'' 2 ''b'' (Inr (PyInt 2)))
                \<lparr>m_config := Inl (OtherException ''no configuration'')\<rparr>,
              module_class ''C'' 3 ''c'' (Inr (PyInt 3))] [])))
     = [''A'', ''B''] \<and>
   snd (run ''/analyses/1'' ''2.1''
          (plugins_of []
             [signature_class ''S1'' 5 None None (Inr True),
              signature_class ''S2'' 1 (Some ''-beta'') None (Inr True),
              signature_class ''S3'' 5 None None (Inr True)]))
     = Inl (AttributeError ''version'')"
proof -
  let ?P = "plugins_of demo_modules demo_signatures"
  let ?r = "[''b'' \<mapsto> Data (PyInt 2), ''a'' \<mapsto> Data (PyInt 1)]"
  have l: "list_processing ?P = Inr demo_modules" "list_signatures ?P = Inr demo_signatures"
    by (simp_all add: plugins_of_def)
  have m: "\<forall>m\<in>set demo_modules. module_fault ''/analyses/1'' m = None"
    by (simp add: demo_defs module_fault_def)
  have r: "merged ''/analyses/1'' (sort_key m_order demo_modules) = ?r"
    by (simp add: demo_defs merged_def contribution_def)
  have s: "\<forall>s\<in>set demo_signatures.
             signature_fault ''2.1-dev'' (merged ''/analyses/1'' (sort_key m_order demo_modules)) s
               = None"
    by (simp add: demo_defs signature_fault_def minimum_gate_def maximum_gate_def version_defs)
  have n: "map m_name (sort_key m_order demo_modules) = [''B'', ''A'', ''C'']"
    "map s_name demo_signatures = [''S1'', ''S2'', ''S3'', ''S4'', ''S5'', ''S6'', ''S7'']"
    by (simp_all add: demo_defs)
  have k: "sort_key mr_severity
             (map matched
                [signature_class ''S1'' 5 None None (Inr True),
                 signature_class ''S2'' 1 None None (Inr True),
                 signature_class ''S3'' 5 (Some ''1.0'') (Some ''3.0'') (Inr True)])
           = [matched (signature_class ''S2'' 1 None None (Inr True)),
              matched (signature_class ''S1'' 5 None None (Inr True)),
              matched (signature_class ''S3'' 5 (Some ''1.0'') (Some ''3.0'') (Inr True))]"
    by (simp add: matched_def example_defs)
  from run_failures_isolated [OF l, where analysis_path = "''/analyses/1''"
      and CUCKOO_VERSION = "''2.1-dev''"] m s
  have "snd (run ''/analyses/1'' ''2.1-dev'' ?P) =
       Inr ((merged ''/analyses/1'' (sort_key m_order demo_modules))
              (''signatures'' \<mapsto> Signatures (sort_key mr_severity (map matched
                 (filter (fires ''2.1-dev''
                            (merged ''/analyses/1'' (sort_key m_order demo_modules)))
                    demo_signatures))))) \<and>
     modules_invoked (fst (run ''/analyses/1'' ''2.1-dev'' ?P))
       = map m_name (sort_key m_order demo_modules) \<and>
     signatures_invoked (fst (run ''/analyses/1'' ''2.1-dev'' ?P)) = map s_name demo_signatures"
    by blast
  then have first: "snd (run ''/analyses/1'' ''2.1-dev'' ?P) =
       Inr (?r(''signatures'' \<mapsto> Signatures
             [matched (signature_class ''S2'' 1 None None (Inr True)),
              matched (signature_class ''S1'' 5 None None (Inr True)),
              matched (signature_class ''S3'' 5 (Some ''1.0'') (Some ''3.0'') (Inr True))])) \<and>
     modules_invoked (fst (run ''/analyses/1'' ''2.1-dev'' ?P)) = [''B'', ''A'', ''C''] \<and>
     signatures_invoked (fst (run ''/analyses/1'' ''2.1-dev'' ?P))
       = [''S1'', ''S2'', ''S3'', ''S4'', ''S5'', ''S6'', ''S7'']"
    by (simp only: r demo_fires n k)

  let ?A = "module_class ''A'' 1 ''a'' (Inr (PyInt 1))"
  let ?B = "(module_class ''B'' 2 ''b'' (Inr (PyInt 2)))
              \<lparr>m_config := Inl (OtherException ''no configuration'')\<rparr>"
  let ?C = "module_class ''C'' 3 ''c'' (Inr (PyInt 3))"
  let ?Q = "plugins_of [?A, ?B, ?C] []"
  have lq: "list_processing ?Q = Inr [?A, ?B, ?C]" "list_signatures ?Q = Inr []"
    by (simp_all add: plugins_of_def)
  have dq: "sort_key m_order [?A, ?B, ?C] = [?A] @ ?B # [?C]"
    by (simp add: example_defs)
  have bq: "\<forall>b\<in>set [?A]. module_fault ''/analyses/1'' b = None"
    by (simp add: example_defs module_fault_def)
  have fq: "module_fault ''/analyses/1'' ?B = Some (OtherException ''no configuration'')"
    by (simp add: example_defs module_fault_def)
  have nq: "map m_name ([?A] @ [?B]) = [''A'', ''B'']"
    by (simp add: example_defs)
  from run_failures_isolated [OF lq, where analysis_path = "''/analyses/1''"
      and CUCKOO_VERSION = "''2.1''" and before = "[?A]" and module = ?B and after = "[?C]"
      and e = "OtherException ''no configuration''"] dq bq fq
  have second: "snd (run ''/analyses/1'' ''2.1'' ?Q) = Inl (OtherException ''no configuration'') \<and>
      modules_invoked (fst (run ''/analyses/1'' ''2.1'' ?Q)) = [''A'', ''B'']"
    unfolding nq by blast

  let ?S1 = "signature_class ''S1'' 5 None None (Inr True)"
  let ?S2 = "signature_class ''S2'' 1 (Some ''-beta'') None (Inr True)"
  let ?S3 = "signature_class ''S3'' 5 None None (Inr True)"
  let ?R = "plugins_of [] [?S1, ?S2, ?S3]"
  have lr: "list_processing ?R = Inr []" "list_signatures ?R = Inr [?S1, ?S2, ?S3]"
    by (simp_all add: plugins_of_def)
  have mr: "\<forall>m\<in>set []. module_fault ''/analyses/1'' m = None"
    by simp
  have dr: "[?S1, ?S2, ?S3] = [?S1] @ ?S2 # [?S3]"
    by simp
  have br: "\<forall>b\<in>set [?S1].
              signature_fault ''2.1'' (merged ''/analyses/1'' (sort_key m_order [])) b = None"
    by (simp add: example_defs signature_fault_def minimum_gate_def maximum_gate_def)
  have fr: "signature_fault ''2.1'' (merged ''/analyses/1'' (sort_key m_order [])) ?S2
              = Some (AttributeError ''version'')"
    by (simp add: example_defs signature_fault_def minimum_gate_def maximum_gate_def
        version_defs)
  from run_failures_isolated [OF lr, where analysis_path = "''/analyses/1''"
      and CUCKOO_VERSION = "''2.1''" and earlier = "[?S1]" and current = ?S2
      and later = "[?S3]" and e' = "AttributeError ''version''"] mr dr br fr
  have third: "snd (run ''/analyses/1'' ''2.1'' ?R) = Inl (AttributeError ''version'')"
    by blast
  from first second third show ?thesis by simp
qed

text \<open>
  The claim as it is written fails: the constructor of a module, its \<open>set_path\<close> and the
  loading of its configuration are called before the \<open>try\<close>, as is the constructor of a
  signature, and what they raise leaves the run; so does a \<open>KeyboardInterrupt\<close> raised
  in a module's \<open>run\<close>.
\<close>

theorem run_failures_isolated_counterexample:
  "snd (run ''/analyses/1'' ''2.1''
          (plugins_of
             [(module_class ''A'' 1 ''a'' (Inr (PyInt 1)))\<lparr>m_new := Inl (OtherException ''boom'')\<rparr>,
              module_class ''B'' 2 ''b'' (Inr (PyInt 2))] []))
     = Inl (OtherException ''boom'') \<and>
   snd (run ''/analyses/1'' ''2.1''
          (plugins_of
             [(module_class ''A'' 1 ''a'' (Inr (PyInt 1)))
                \<lparr>m_set_path := (\<lambda>path. Inl (OtherException ''no such folder''))\<rparr>,
              module_class ''B'' 2 ''b'' (Inr (PyInt 2))] []))
     = Inl (OtherException ''no such folder'') \<and>
   snd (run ''/analyses/1'' ''2.1''
          (plugins_of
             [(module_class ''A'' 1 ''a'' (Inr (PyInt 1)))
                \<lparr>m_config := Inl (OtherException ''no configuration'')\<rparr>,
              module_class ''B'' 2 ''b'' (Inr (PyInt 2))] []))
     = Inl (OtherException ''no configuration'') \<and>
   snd (run ''/analyses/1'' ''2.1''
          (plugins_of []
             [(signature_class ''S'' 1 None None (Inr True))
                \<lparr>s_new := (\<lambda>results. Inl (OtherException ''boom''))\<rparr>,
              signature_class ''T'' 2 None None (Inr True)]))
     = Inl (OtherException ''boom'') \<and>
   snd (run ''/analyses/1'' ''2.1''
          (plugins_of [module_class ''A'' 1 ''a'' (Inl KeyboardInterrupt),
                       module_class ''B'' 2 ''b'' (Inr (PyInt 2))] []))
     = Inl KeyboardInterrupt"
  by (simp add: run_defs plugins_of_def example_defs)

end
